theory Spec2Isabelle
  imports Main "HOL-Library.Word"
begin

unbundle bit_operations_syntax

section \<open>Data model\<close>

text \<open>
  Shallow embedding of \<^verbatim>\<open>src/extract.js\<close>. JavaScript numbers that the program only
  uses as integers are \<^typ>\<open>int\<close>; the 32-bit conversion that the bitwise operators
  apply is written out (\<open>to_int32\<close>). Typed-array elements are machine words.
\<close>

type_synonym byte = "8 word"
type_synonym int16 = "16 word"

text \<open>
  Values that the program can throw. The two \<^verbatim>\<open>new Error(...)\<close> of
  \<^verbatim>\<open>normalizeToPcm16\<close> carry their (non-ASCII) messages in the source; here each is a
  constructor. \<open>RangeError\<close> is what the typed-array constructor raises, and
  \<open>ExternalError\<close> is an error object thrown by a collaborator (decoder, encoder,
  filesystem) with its message. Every thrown value is an error object, so reading its
  \<^verbatim>\<open>message\<close> in a \<^verbatim>\<open>catch\<close> block does not throw.
\<close>

datatype js_error =
    UnknownFormat16
  | UnknownFormat8
  | RangeError
  | ExternalError string

text \<open>
  An \<^verbatim>\<open>Int8Array\<close> is a view: the bytes of its underlying \<^verbatim>\<open>ArrayBuffer\<close>, the byte
  offset at which the view starts, and its element count. Every view that JavaScript can
  construct satisfies \<open>wf_int8array\<close>.
\<close>

record int8array =
  buffer :: "byte list"
  byteOffset :: nat
  alength :: nat

definition wf_int8array :: "int8array \<Rightarrow> bool" where
  "wf_int8array a = (byteOffset a + alength a \<le> length (buffer a))"

text \<open>The elements seen through the view, in index order.\<close>

definition int8_elems :: "int8array \<Rightarrow> byte list" where
  "int8_elems a = take (alength a) (drop (byteOffset a) (buffer a))"

text \<open>
  The \<^verbatim>\<open>data\<close> property of a sample record, by the cases the program distinguishes:
  a falsy value (\<^verbatim>\<open>undefined\<close>, \<^verbatim>\<open>null\<close>), an \<^verbatim>\<open>Int8Array\<close>, an \<^verbatim>\<open>Int16Array\<close> (by
  its elements: the program returns it as it is and only reads its length and
  elements), or any other truthy value, with the value of its \<^verbatim>\<open>length\<close> property when
  that is a non-negative integer.
\<close>

datatype sample_data =
    NoData
  | Int8Array int8array
  | Int16Array "int16 list"
  | OtherData "nat option"

record sampleInfo =
  name :: string
  len :: int
  flg :: int
  data :: sample_data

section \<open>JavaScript integer operators\<close>

definition to_int32 :: "int \<Rightarrow> int" where
  "to_int32 x = signed_take_bit 31 x"

definition js_and :: "int \<Rightarrow> int \<Rightarrow> int" where
  "js_and x y = to_int32 x AND to_int32 y"

definition js_shl :: "int \<Rightarrow> nat \<Rightarrow> int" where
  "js_shl x n = to_int32 (push_bit (n mod 32) (to_int32 x))"

text \<open>Storing a number into an \<^verbatim>\<open>Int16Array\<close> keeps its low 16 bits.\<close>

definition to_int16 :: "int \<Rightarrow> int16" where
  "to_int16 x = word_of_int x"

text \<open>
  \<^verbatim>\<open>sampleData[j]\<close> on an \<^verbatim>\<open>Int8Array\<close>: the signed value of the byte. An index outside
  the view reads \<^verbatim>\<open>undefined\<close>, which the shift operator converts to 0.
\<close>

definition int8_get :: "int8array \<Rightarrow> nat \<Rightarrow> int" where
  "int8_get a j =
     (if j < alength a \<and> byteOffset a + j < length (buffer a)
      then sint (buffer a ! (byteOffset a + j)) else 0)"

text \<open>One little-endian 16-bit element from two consecutive bytes.\<close>

definition le16 :: "byte \<Rightarrow> byte \<Rightarrow> int16" where
  "le16 lo hi = ucast lo OR push_bit 8 (ucast hi)"

text \<open>
  \<^verbatim>\<open>new Int16Array(buffer, byteOffset, length)\<close> after \<open>ToIndex\<close> has truncated the
  length argument: a \<^verbatim>\<open>RangeError\<close> when the offset is not a multiple of the element
  size or the view would run past the buffer, otherwise the view's elements (the
  platform's byte order is little-endian).
\<close>

definition new_Int16Array :: "byte list \<Rightarrow> nat \<Rightarrow> nat \<Rightarrow> js_error + int16 list" where
  "new_Int16Array buf off n =
     (if off mod 2 \<noteq> 0 then Inl RangeError
      else if length buf < off + 2 * n then Inl RangeError
      else Inr (map (\<lambda>i. le16 (buf ! (off + 2 * i)) (buf ! (off + 2 * i + 1))) [0..<n]))"

section \<open>PCM normalizer\<close>

definition XMP_SAMPLE_16BIT :: int where
  "XMP_SAMPLE_16BIT = 4"

definition is16bit :: "sampleInfo \<Rightarrow> bool" where
  "is16bit sampleInfo = (js_and (flg sampleInfo) XMP_SAMPLE_16BIT \<noteq> 0)"

definition normalizeToPcm16 :: "sampleInfo \<Rightarrow> js_error + int16 list" where
  "normalizeToPcm16 sampleInfo =
     (if is16bit sampleInfo then
        (case data sampleInfo of
           Int16Array w \<Rightarrow> Inr w
         | Int8Array a \<Rightarrow> new_Int16Array (buffer a) (byteOffset a) (alength a div 2)
         | _ \<Rightarrow> Inl UnknownFormat16)
      else
        (case data sampleInfo of
           Int8Array a \<Rightarrow> Inr (map (\<lambda>j. to_int16 (js_shl (int8_get a j) 8)) [0..<alength a])
         | _ \<Rightarrow> Inl UnknownFormat8))"


section \<open>Block encoder adapter\<close>

text \<open>
  A JavaScript number as the program meets it in \<^verbatim>\<open>targetSampleRate\<close>: \<^verbatim>\<open>NaN\<close>, an
  integer that a double holds exactly, or (\<open>Approx m\<close>) the double nearest to an
  integer \<open>m\<close> beyond \<open>2 ^ 53\<close>, whose rounding is not computed here.
\<close>

datatype js_number = NaN | Num int | Approx int

definition MP3_KBPS :: int where
  "MP3_KBPS = 128"

definition MP3_BLOCK_SIZE :: nat where
  "MP3_BLOCK_SIZE = 1152"

text \<open>
  The external encoder (\<^verbatim>\<open>lamejs.Mp3Encoder\<close>) is not part of the repository. It is a
  parameter: a constructor and two methods over an encoder state \<open>'st\<close>, each of which
  may throw. The methods return the bytes of the \<^verbatim>\<open>Int8Array\<close> they produce and the
  next state.
\<close>

record 'st encoder =
  Mp3Encoder :: "int \<Rightarrow> js_number \<Rightarrow> int \<Rightarrow> js_error + 'st"
  encodeBuffer :: "'st \<Rightarrow> int16 list \<Rightarrow> js_error + (byte list \<times> 'st)"
  flush :: "'st \<Rightarrow> js_error + (byte list \<times> 'st)"

text \<open>
  The \<^verbatim>\<open>for (let k = 0; k < pcm16.length; k += MP3_BLOCK_SIZE)\<close> loop.
  \<^verbatim>\<open>pcm16.subarray(k, k + MP3_BLOCK_SIZE)\<close> is \<open>take MP3_BLOCK_SIZE (drop k pcm16)\<close>.
\<close>

function encode_loop ::
  "'st encoder \<Rightarrow> int16 list \<Rightarrow> nat \<Rightarrow> 'st \<Rightarrow> byte list list \<Rightarrow>
     js_error + (byte list list \<times> 'st)" where
  "encode_loop enc pcm16 k st mp3Data =
     (if k < length pcm16 then
        (case encodeBuffer enc st (take MP3_BLOCK_SIZE (drop k pcm16)) of
           Inl e \<Rightarrow> Inl e
         | Inr (mp3buf, st') \<Rightarrow>
             encode_loop enc pcm16 (k + MP3_BLOCK_SIZE) st'
               (if 0 < length mp3buf then mp3Data @ [mp3buf] else mp3Data))
      else Inr (mp3Data, st))"
  by pat_completeness auto
termination
  by (relation "measure (\<lambda>(enc, pcm16, k, st, mp3Data). length pcm16 - k)")
     (auto simp: MP3_BLOCK_SIZE_def)

declare encode_loop.simps [simp del]

text \<open>
  \<^verbatim>\<open>encodeToMp3\<close>, returning next to the MP3 bytes the state in which it leaves the
  encoder object (which the source drops), so that the calls made on the encoder can be
  observed.
\<close>

definition encodeToMp3_run ::
  "'st encoder \<Rightarrow> int16 list \<Rightarrow> js_number \<Rightarrow> js_error + (byte list \<times> 'st)" where
  "encodeToMp3_run enc pcm16 targetSampleRate =
     (case Mp3Encoder enc 1 targetSampleRate MP3_KBPS of
        Inl e \<Rightarrow> Inl e
      | Inr st0 \<Rightarrow>
          (case encode_loop enc pcm16 0 st0 [] of
             Inl e \<Rightarrow> Inl e
           | Inr (mp3Data, st1) \<Rightarrow>
               (case flush enc st1 of
                  Inl e \<Rightarrow> Inl e
                | Inr (mp3buf, st2) \<Rightarrow>
                    Inr (concat (if 0 < length mp3buf then mp3Data @ [mp3buf] else mp3Data),
                         st2))))"

definition encodeToMp3 :: "'st encoder \<Rightarrow> int16 list \<Rightarrow> js_number \<Rightarrow> js_error + byte list" where
  "encodeToMp3 enc pcm16 targetSampleRate =
     (case encodeToMp3_run enc pcm16 targetSampleRate of
        Inl e \<Rightarrow> Inl e
      | Inr (mp3, st) \<Rightarrow> Inr mp3)"

subsection \<open>The adapter as the specification words it\<close>

text \<open>
  Written from the specification, for comparison with \<open>encodeToMp3_run\<close>: the
  partition of a sequence into consecutive blocks of \<open>n\<close> elements, the last one
  possibly shorter; feeding a list of blocks to the encoder in order; and the whole
  adapter: construct, feed the blocks of 1152 frames, flush once, concatenate the
  non-empty chunks with the flush output last.
\<close>

function blocks :: "nat \<Rightarrow> 'a list \<Rightarrow> 'a list list" where
  "blocks n xs = (if n = 0 \<or> xs = [] then [] else take n xs # blocks n (drop n xs))"
  by pat_completeness auto
termination
  by (relation "measure (\<lambda>(n, xs). length xs)") auto

declare blocks.simps [simp del]

fun feed :: "'st encoder \<Rightarrow> 'st \<Rightarrow> int16 list list \<Rightarrow> js_error + (byte list list \<times> 'st)" where
  "feed enc st [] = Inr ([], st)"
| "feed enc st (b # bs) =
     (case encodeBuffer enc st b of
        Inl e \<Rightarrow> Inl e
      | Inr (out, st') \<Rightarrow>
          (case feed enc st' bs of
             Inl e \<Rightarrow> Inl e
           | Inr (outs, st'') \<Rightarrow> Inr (out # outs, st'')))"

definition encode_spec ::
  "'st encoder \<Rightarrow> int16 list \<Rightarrow> js_number \<Rightarrow> js_error + (byte list \<times> 'st)" where
  "encode_spec enc pcm rate =
     (case Mp3Encoder enc 1 rate 128 of
        Inl e \<Rightarrow> Inl e
      | Inr st0 \<Rightarrow>
          (case feed enc st0 (blocks 1152 pcm) of
             Inl e \<Rightarrow> Inl e
           | Inr (outs, st1) \<Rightarrow>
               (case flush enc st1 of
                  Inl e \<Rightarrow> Inl e
                | Inr (out, st2) \<Rightarrow>
                    Inr (concat (filter (\<lambda>c. c \<noteq> []) (outs @ [out])), st2))))"

section \<open>JavaScript strings\<close>

text \<open>
  A string is the list of its code units; \<^typ>\<open>char\<close> has 8 bits, so the model covers code
  units below 256. The functions below are the built-in string operations the
  orchestrator uses, on that range.
\<close>

text \<open>White space and line terminators (what \<^verbatim>\<open>trim\<close> and \<^verbatim>\<open>parseInt\<close> strip).\<close>

definition is_space :: "char \<Rightarrow> bool" where
  "is_space c = ((of_char c :: nat) \<in> set [9, 10, 11, 12, 13, 32, 160])"

definition js_trim :: "string \<Rightarrow> string" where
  "js_trim s = rev (dropWhile is_space (rev (dropWhile is_space s)))"

definition is_alnum :: "char \<Rightarrow> bool" where
  "is_alnum c =
     (let n = (of_char c :: nat)
      in (48 \<le> n \<and> n \<le> 57) \<or> (65 \<le> n \<and> n \<le> 90) \<or> (97 \<le> n \<and> n \<le> 122))"

text \<open>\<^verbatim>\<open>s.replace(/[^a-z0-9]/gi, '_')\<close>\<close>

definition sanitize :: "string \<Rightarrow> string" where
  "sanitize s = map (\<lambda>c. if is_alnum c then c else CHR ''_'') s"

text \<open>\<^verbatim>\<open>a || b\<close> on strings: the empty string is falsy.\<close>

definition js_or :: "string \<Rightarrow> string \<Rightarrow> string" where
  "js_or a b = (if a = [] then b else a)"

definition digit_char :: "nat \<Rightarrow> char" where
  "digit_char d = char_of (48 + d)"

text \<open>\<^verbatim>\<open>String(n)\<close> for a non-negative integer.\<close>

function string_of_nat :: "nat \<Rightarrow> string" where
  "string_of_nat n =
     (if n < 10 then [digit_char n] else string_of_nat (n div 10) @ [digit_char (n mod 10)])"
  by pat_completeness auto
termination
  by (relation "measure (\<lambda>n. n)") auto

declare string_of_nat.simps [simp del]

text \<open>\<^verbatim>\<open>s.padStart(2, '0')\<close>\<close>

definition padStart2 :: "string \<Rightarrow> string" where
  "padStart2 s = replicate (2 - length s) CHR ''0'' @ s"

definition to_lower :: "char \<Rightarrow> char" where
  "to_lower c =
     (let n = (of_char c :: nat)
      in if (65 \<le> n \<and> n \<le> 90) \<or> (192 \<le> n \<and> n \<le> 222 \<and> n \<noteq> 215)
         then char_of (n + 32) else c)"

definition toLowerCase :: "string \<Rightarrow> string" where
  "toLowerCase s = map to_lower s"

definition is_digit :: "char \<Rightarrow> bool" where
  "is_digit c = (48 \<le> (of_char c :: nat) \<and> (of_char c :: nat) \<le> 57)"

definition digits_value :: "string \<Rightarrow> int" where
  "digits_value ds = foldl (\<lambda>acc c. 10 * acc + int (of_char c - 48)) 0 ds"

text \<open>
  \<^verbatim>\<open>parseInt(s, 10)\<close>: leading white space is skipped, one sign is read, then the longest
  run of decimal digits; \<^verbatim>\<open>NaN\<close> when that run is empty. Whatever follows the digits is
  ignored.
\<close>

definition parseInt10 :: "string \<Rightarrow> js_number" where
  "parseInt10 s =
     (let t = dropWhile is_space s;
          sign = (case t of c # r \<Rightarrow> if c = CHR ''-'' then - 1 else 1 | [] \<Rightarrow> (1 :: int));
          u = (case t of c # r \<Rightarrow> if c = CHR ''-'' \<or> c = CHR ''+'' then r else t | [] \<Rightarrow> t);
          z = takeWhile is_digit u
      in if z = [] then NaN
         else if digits_value z \<le> 2 ^ 53 then Num (sign * digits_value z)
         else Approx (sign * digits_value z))"

section \<open>Batch orchestrator\<close>

definition VALID_EXTENSIONS :: "string list" where
  "VALID_EXTENSIONS = [''.mod'', ''.xm'', ''.s3m'', ''.it'']"

text \<open>\<^verbatim>\<open>VALID_EXTENSIONS.includes(ext.toLowerCase())\<close>\<close>

definition valid_extension :: "string \<Rightarrow> bool" where
  "valid_extension ext = (toLowerCase ext \<in> set VALID_EXTENSIONS)"

text \<open>
  What \<^verbatim>\<open>xmp.getModuleData()\<close> returns: a module with a name and a sample list, either of
  which the program tests for being falsy (\<open>None\<close>).
\<close>

record moduleData =
  mod_name :: string
  samples :: "sampleInfo list option"

record stats =
  isDirectory :: bool
  isFile :: bool

text \<open>
  The collaborators that are not part of the repository, as parameters over a world
  state \<open>'w\<close>: Node's \<^verbatim>\<open>fs\<close> (reads return a value or throw; \<^verbatim>\<open>mkdirSync\<close> with
  \<^verbatim>\<open>recursive: true\<close> and \<^verbatim>\<open>writeFileSync\<close> return the error they throw, if any, and the
  world they leave behind), the module decoder (\<^verbatim>\<open>new Xmp()\<close>, \<^verbatim>\<open>loadModule\<close>,
  \<^verbatim>\<open>getModuleData\<close> as one function of the file's bytes), and Node's \<^verbatim>\<open>path\<close>.
\<close>

record 'w sys =
  existsSync :: "'w \<Rightarrow> string \<Rightarrow> bool"
  statSync :: "'w \<Rightarrow> string \<Rightarrow> js_error + stats"
  readdirSync :: "'w \<Rightarrow> string \<Rightarrow> js_error + string list"
  readFileSync :: "'w \<Rightarrow> string \<Rightarrow> js_error + byte list"
  mkdirSync :: "'w \<Rightarrow> string \<Rightarrow> js_error option \<times> 'w"
  writeFileSync :: "'w \<Rightarrow> string \<Rightarrow> byte list \<Rightarrow> js_error option \<times> 'w"
  getModuleData :: "byte list \<Rightarrow> js_error + moduleData option"
  path_join :: "string \<Rightarrow> string \<Rightarrow> string"
  path_basename :: "string \<Rightarrow> string \<Rightarrow> string"
  path_extname :: "string \<Rightarrow> string"
  path_resolve :: "'w \<Rightarrow> string \<Rightarrow> string"

text \<open>
  The lines the program prints, one constructor per \<^verbatim>\<open>console.log\<close> (\<open>Log\<close>, \<open>Info\<close>) or
  \<^verbatim>\<open>console.error\<close> (\<open>Err\<close>) call, with the values interpolated into the message.
\<close>

datatype log_entry =
    LogProcessing string
  | ErrLoadFailed string js_error
  | InfoNoSamples string
  | ErrSampleFailed nat string js_error
  | LogDone nat nat string
  | ErrUsage
  | ErrUsageExample
  | ErrInputNotFound string
  | LogStart
  | LogInput string
  | LogOutput string
  | LogRate js_number
  | LogSeparator
  | LogSearching string
  | ErrInvalidInput string
  | LogFinished

record 'w pstate =
  world :: 'w
  console :: "log_entry list"

definition put :: "log_entry \<Rightarrow> 'w pstate \<Rightarrow> 'w pstate" where
  "put e st = st\<lparr>console := console st @ [e]\<rparr>"

text \<open>
  How a function ends: it returns, an exception leaves it uncaught, or
  \<^verbatim>\<open>process.exit(code)\<close> ends the process.
\<close>

datatype completion = Returned | Thrown js_error | Exited int

text \<open>
  The exit status of the process when \<^verbatim>\<open>main\<close> ends that way: 0 after a normal return, 1
  after an uncaught exception.
\<close>

fun exit_status :: "completion \<Rightarrow> int" where
  "exit_status Returned = 0"
| "exit_status (Thrown e) = 1"
| "exit_status (Exited code) = code"

text \<open>
  \<^verbatim>\<open>toArrayBuffer\<close> copies the bytes of the \<^verbatim>\<open>Buffer\<close> view into a new \<^verbatim>\<open>ArrayBuffer\<close>. With
  a buffer given by its bytes, it returns them.
\<close>

definition toArrayBuffer :: "byte list \<Rightarrow> byte list" where
  "toArrayBuffer buf = buf"

text \<open>The first \<^verbatim>\<open>try\<close> block of \<^verbatim>\<open>processFile\<close>.\<close>

definition loadModuleData :: "'w sys \<Rightarrow> 'w \<Rightarrow> string \<Rightarrow> js_error + moduleData option" where
  "loadModuleData sys w filePath =
     (case readFileSync sys w filePath of
        Inl e \<Rightarrow> Inl e
      | Inr fileBuffer \<Rightarrow> getModuleData sys (toArrayBuffer fileBuffer))"

text \<open>The \<^verbatim>\<open>length\<close> property of a sample's data.\<close>

fun data_length :: "sample_data \<Rightarrow> nat option" where
  "data_length NoData = None"
| "data_length (Int8Array a) = Some (alength a)"
| "data_length (Int16Array w) = Some (length w)"
| "data_length (OtherData l) = l"

text \<open>
  \<^verbatim>\<open>sampleInfo.len <= 0 || !sampleInfo.data || sampleInfo.data.length === 0\<close>
\<close>

definition sample_is_empty :: "sampleInfo \<Rightarrow> bool" where
  "sample_is_empty sampleInfo =
     (len sampleInfo \<le> 0 \<or> data sampleInfo = NoData \<or> data_length (data sampleInfo) = Some 0)"

definition sampleNameRaw :: "nat \<Rightarrow> sampleInfo \<Rightarrow> string" where
  "sampleNameRaw i sampleInfo = js_or (js_trim (name sampleInfo)) (''Sample '' @ string_of_nat (i + 1))"

definition outputFileName :: "nat \<Rightarrow> sampleInfo \<Rightarrow> string" where
  "outputFileName i sampleInfo =
     padStart2 (string_of_nat (i + 1)) @ ''_'' @ sanitize (sampleNameRaw i sampleInfo) @ ''.mp3''"

text \<open>
  The body of the \<^verbatim>\<open>for\<close> loop of \<^verbatim>\<open>processFile\<close> for the sample at index \<open>i\<close>, on the
  success counter and the state.
\<close>

definition processSample ::
  "'w sys \<Rightarrow> 'st encoder \<Rightarrow> string \<Rightarrow> js_number \<Rightarrow> nat \<Rightarrow> sampleInfo \<Rightarrow>
     nat \<times> 'w pstate \<Rightarrow> nat \<times> 'w pstate" where
  "processSample sys enc moduleOutputDir targetSampleRate i sampleInfo acc =
     (case acc of (extractedCount, st) \<Rightarrow>
        if sample_is_empty sampleInfo then (extractedCount, st)
        else
          (case normalizeToPcm16 sampleInfo of
             Inl err \<Rightarrow>
               (extractedCount, put (ErrSampleFailed i (sampleNameRaw i sampleInfo) err) st)
           | Inr pcm16 \<Rightarrow>
               (case encodeToMp3 enc pcm16 targetSampleRate of
                  Inl err \<Rightarrow>
                    (extractedCount, put (ErrSampleFailed i (sampleNameRaw i sampleInfo) err) st)
                | Inr mp3Buffer \<Rightarrow>
                    (case writeFileSync sys (world st)
                            (path_join sys moduleOutputDir (outputFileName i sampleInfo))
                            mp3Buffer of
                       (Some err, w') \<Rightarrow>
                         (extractedCount,
                          put (ErrSampleFailed i (sampleNameRaw i sampleInfo) err)
                            (st\<lparr>world := w'\<rparr>))
                     | (None, w') \<Rightarrow> (extractedCount + 1, st\<lparr>world := w'\<rparr>)))))"

text \<open>\<^verbatim>\<open>for (let i = 0; i < moduleData.samples.length; i++)\<close>, from index \<open>i\<close> on.\<close>

fun processSamples ::
  "'w sys \<Rightarrow> 'st encoder \<Rightarrow> string \<Rightarrow> js_number \<Rightarrow> nat \<Rightarrow> sampleInfo list \<Rightarrow>
     nat \<times> 'w pstate \<Rightarrow> nat \<times> 'w pstate" where
  "processSamples sys enc moduleOutputDir targetSampleRate i [] acc = acc"
| "processSamples sys enc moduleOutputDir targetSampleRate i (sampleInfo # rest) acc =
     processSamples sys enc moduleOutputDir targetSampleRate (i + 1) rest
       (processSample sys enc moduleOutputDir targetSampleRate i sampleInfo acc)"

definition moduleOutputDir_of :: "'w sys \<Rightarrow> string \<Rightarrow> string \<Rightarrow> moduleData \<Rightarrow> string" where
  "moduleOutputDir_of sys filePath outputDir md =
     path_join sys outputDir
       (js_or (sanitize (js_trim (mod_name md)))
              (path_basename sys filePath (path_extname sys filePath)))"

definition processFile ::
  "'w sys \<Rightarrow> 'st encoder \<Rightarrow> string \<Rightarrow> string \<Rightarrow> js_number \<Rightarrow> 'w pstate \<Rightarrow>
     completion \<times> 'w pstate" where
  "processFile sys enc filePath outputDir targetSampleRate st0 =
     (let st = put (LogProcessing filePath) st0 in
      case loadModuleData sys (world st) filePath of
        Inl error \<Rightarrow> (Returned, put (ErrLoadFailed filePath error) st)
      | Inr None \<Rightarrow> (Returned, put (InfoNoSamples filePath) st)
      | Inr (Some md) \<Rightarrow>
          (case samples md of
             None \<Rightarrow> (Returned, put (InfoNoSamples filePath) st)
           | Some ss \<Rightarrow>
               if length ss = 0 then (Returned, put (InfoNoSamples filePath) st)
               else
                 (case mkdirSync sys (world st) (moduleOutputDir_of sys filePath outputDir md) of
                    (Some e, w1) \<Rightarrow> (Thrown e, st\<lparr>world := w1\<rparr>)
                  | (None, w1) \<Rightarrow>
                      (case processSamples sys enc (moduleOutputDir_of sys filePath outputDir md)
                              targetSampleRate 0 ss (0, st\<lparr>world := w1\<rparr>) of
                         (extractedCount, st2) \<Rightarrow>
                           (Returned,
                            put (LogDone extractedCount (length ss)
                                   (moduleOutputDir_of sys filePath outputDir md)) st2)))))"

text \<open>The \<^verbatim>\<open>files.forEach\<close> of \<^verbatim>\<open>main\<close>: an uncaught exception ends the iteration.\<close>

fun processDir ::
  "'w sys \<Rightarrow> 'st encoder \<Rightarrow> string \<Rightarrow> string \<Rightarrow> js_number \<Rightarrow> string list \<Rightarrow> 'w pstate \<Rightarrow>
     completion \<times> 'w pstate" where
  "processDir sys enc inputPath outputDir sampleRate [] st = (Returned, st)"
| "processDir sys enc inputPath outputDir sampleRate (file # rest) st =
     (case statSync sys (world st) (path_join sys inputPath file) of
        Inl e \<Rightarrow> (Thrown e, st)
      | Inr s \<Rightarrow>
          if isFile s \<and> valid_extension (path_extname sys file) then
            (case processFile sys enc (path_join sys inputPath file) outputDir sampleRate st of
               (Returned, st') \<Rightarrow> processDir sys enc inputPath outputDir sampleRate rest st'
             | (c, st') \<Rightarrow> (c, st'))
          else processDir sys enc inputPath outputDir sampleRate rest st)"

text \<open>\<^verbatim>\<open>process.argv[n]\<close>: \<open>None\<close> is \<^verbatim>\<open>undefined\<close>.\<close>

definition argv_at :: "string list \<Rightarrow> nat \<Rightarrow> string option" where
  "argv_at argv n = (if n < length argv then Some (argv ! n) else None)"

text \<open>\<^verbatim>\<open>parseInt(process.argv[4] || '22050', 10)\<close>\<close>

definition sampleRate_of :: "string list \<Rightarrow> js_number" where
  "sampleRate_of argv =
     parseInt10 (case argv_at argv 4 of None \<Rightarrow> ''22050'' | Some a \<Rightarrow> js_or a ''22050'')"

text \<open>The last line of \<^verbatim>\<open>main\<close>, reached when nothing was thrown before it.\<close>

definition finish :: "completion \<times> 'w pstate \<Rightarrow> completion \<times> 'w pstate" where
  "finish r = (case r of (Returned, st) \<Rightarrow> (Returned, put LogFinished st) | (c, st) \<Rightarrow> (c, st))"

definition usage_exit :: "'w pstate \<Rightarrow> completion \<times> 'w pstate" where
  "usage_exit st = (Exited 1, put ErrUsageExample (put ErrUsage st))"

text \<open>
  \<^verbatim>\<open>main\<close> from the \<^verbatim>\<open>existsSync\<close> test to its end, on the input path, the output
  directory and the sample rate that its first lines have read from \<^verbatim>\<open>process.argv\<close>.
\<close>

definition run ::
  "'w sys \<Rightarrow> 'st encoder \<Rightarrow> string \<Rightarrow> string \<Rightarrow> js_number \<Rightarrow> 'w pstate \<Rightarrow>
     completion \<times> 'w pstate" where
  "run sys enc inputPath outputDir sampleRate st =
     (if \<not> existsSync sys (world st) inputPath then
        (Exited 1, put (ErrInputNotFound inputPath) st)
      else
        (case mkdirSync sys (world st) outputDir of
           (Some e, w1) \<Rightarrow> (Thrown e, st\<lparr>world := w1\<rparr>)
         | (None, w1) \<Rightarrow>
             (let st1 = put LogSeparator (put (LogRate sampleRate)
                          (put (LogOutput (path_resolve sys w1 outputDir))
                            (put (LogInput (path_resolve sys w1 inputPath))
                              (put LogStart (st\<lparr>world := w1\<rparr>)))))
              in case statSync sys (world st1) inputPath of
                   Inl e \<Rightarrow> (Thrown e, st1)
                 | Inr s \<Rightarrow>
                     if isDirectory s then
                       (case readdirSync sys (world st1) inputPath of
                          Inl e \<Rightarrow> (Thrown e, put (LogSearching inputPath) st1)
                        | Inr files \<Rightarrow>
                            finish (processDir sys enc inputPath outputDir sampleRate
                                      files (put (LogSearching inputPath) st1)))
                     else if isFile s \<and> valid_extension (path_extname sys inputPath) then
                       finish (processFile sys enc inputPath outputDir sampleRate st1)
                     else
                       finish (Returned, put (ErrInvalidInput inputPath) st1))))"

text \<open>
  \<^verbatim>\<open>main\<close>: the three values read from \<^verbatim>\<open>process.argv\<close>, the usage test
  \<^verbatim>\<open>!inputPath || !outputDir\<close> (\<^verbatim>\<open>undefined\<close> and the empty string are falsy), then the
  rest of the function.
\<close>

definition main :: "'w sys \<Rightarrow> 'st encoder \<Rightarrow> string list \<Rightarrow> 'w pstate \<Rightarrow> completion \<times> 'w pstate" where
  "main sys enc argv st =
     (let sampleRate = sampleRate_of argv in
      case argv_at argv 2 of
        None \<Rightarrow> usage_exit st
      | Some inputPath \<Rightarrow>
          (case argv_at argv 3 of
             None \<Rightarrow> usage_exit st
           | Some outputDir \<Rightarrow>
               if inputPath = [] \<or> outputDir = [] then usage_exit st
               else run sys enc inputPath outputDir sampleRate st))"

section \<open>Test fixtures\<close>

text \<open>
  A stub encoder that records the calls made on it: its state is the list of calls so
  far. It answers a full block with one byte (the number of calls before it), buffers a
  short block (empty answer), and answers the flush with the byte 255.
\<close>

datatype enc_call = Constructed int js_number int | EncodeCall "int16 list" | FlushCall

definition recorder :: "enc_call list encoder" where
  "recorder = \<lparr>
     Mp3Encoder = (\<lambda>channels rate kbps. Inr [Constructed channels rate kbps]),
     encodeBuffer = (\<lambda>st b.
        Inr (if length b = 1152 then [of_nat (length st)] else [], st @ [EncodeCall b])),
     flush = (\<lambda>st. Inr ([255], st @ [FlushCall])) \<rparr>"

definition sample_8bit :: sampleInfo where
  "sample_8bit = \<lparr>name = ''kick'', len = 4, flg = 0,
     data = Int8Array \<lparr>buffer = [- 128, 0, 127, - 1], byteOffset = 0, alength = 4\<rparr>\<rparr>"

definition sample_16bit_odd :: sampleInfo where
  "sample_16bit_odd = \<lparr>name = ''snare'', len = 1, flg = 4,
     data = Int8Array \<lparr>buffer = [1, 2, 3], byteOffset = 0, alength = 3\<rparr>\<rparr>"

definition sample_short :: sampleInfo where
  "sample_short = \<lparr>name = ''hat'', len = 5, flg = 0,
     data = Int8Array \<lparr>buffer = [1, 2, 3], byteOffset = 0, alength = 3\<rparr>\<rparr>"

text \<open>
  Samples for the orchestrator: one that is unused (no frames, no data) and one whose
  data does not fit its flags (8-bit flags with an \<^verbatim>\<open>Int16Array\<close>).
\<close>

definition sample_unused :: sampleInfo where
  "sample_unused = \<lparr>name = '''', len = 0, flg = 0, data = NoData\<rparr>"

definition sample_wrong_type :: sampleInfo where
  "sample_wrong_type = \<lparr>name = ''pad'', len = 2, flg = 0, data = Int16Array [1, 2]\<rparr>"

text \<open>A stub encoder whose constructor throws.\<close>

definition broken_encoder :: "unit encoder" where
  "broken_encoder = \<lparr>
     Mp3Encoder = (\<lambda>channels rate kbps. Inl (ExternalError ''no encoder'')),
     encodeBuffer = (\<lambda>st b. Inr ([], st)),
     flush = (\<lambda>st. Inr ([], st)) \<rparr>"

text \<open>
  A stub world: a filesystem given by its directories and its files, paths as plain
  strings with \<^verbatim>\<open>/\<close> as separator, and a decoder that knows three modules by their
  bytes. \<^verbatim>\<open>mkdirSync\<close> fails on the path of a file, \<^verbatim>\<open>writeFileSync\<close> on the path of a
  directory.
\<close>

record stub_fs =
  stub_dirs :: "string list"
  stub_files :: "(string \<times> byte list) list"

definition stub_basename :: "string \<Rightarrow> string" where
  "stub_basename p = rev (takeWhile (\<lambda>c. c \<noteq> CHR ''/'') (rev p))"

definition stub_extname :: "string \<Rightarrow> string" where
  "stub_extname p =
     (let b = stub_basename p; e = takeWhile (\<lambda>c. c \<noteq> CHR ''.'') (rev b)
      in if length b \<le> length e + 1 then [] else CHR ''.'' # rev e)"

definition stub_basename_ext :: "string \<Rightarrow> string \<Rightarrow> string" where
  "stub_basename_ext p ext =
     (let b = stub_basename p
      in if ext \<noteq> [] \<and> length ext < length b \<and> drop (length b - length ext) b = ext
         then take (length b - length ext) b else b)"

definition stub_decode :: "byte list \<Rightarrow> js_error + moduleData option" where
  "stub_decode bytes =
     (if bytes = [1] then
        Inr (Some \<lparr>mod_name = ''My Song'',
                   samples = Some [sample_8bit, sample_unused, sample_wrong_type]\<rparr>)
      else if bytes = [2] then
        Inr (Some \<lparr>mod_name = '' '', samples = Some [sample_wrong_type]\<rparr>)
      else if bytes = [3] then
        Inr (Some \<lparr>mod_name = ''silence'', samples = Some []\<rparr>)
      else Inl (ExternalError ''not a module''))"

definition stub_entries :: "stub_fs \<Rightarrow> string \<Rightarrow> string list" where
  "stub_entries w p =
     map (drop (length p + 1))
       (filter (\<lambda>q. take (length p + 1) q = p @ ''/'' \<and> CHR ''/'' \<notin> set (drop (length p + 1) q))
          (map fst (stub_files w) @ stub_dirs w))"

definition stub_sys :: "stub_fs sys" where
  "stub_sys = \<lparr>
     existsSync = (\<lambda>w p. p \<in> set (stub_dirs w) \<or> map_of (stub_files w) p \<noteq> None),
     statSync = (\<lambda>w p.
        if p \<in> set (stub_dirs w) then Inr \<lparr>isDirectory = True, isFile = False\<rparr>
        else if map_of (stub_files w) p \<noteq> None then Inr \<lparr>isDirectory = False, isFile = True\<rparr>
        else Inl (ExternalError ''ENOENT'')),
     readdirSync = (\<lambda>w p.
        if p \<in> set (stub_dirs w) then Inr (stub_entries w p) else Inl (ExternalError ''ENOTDIR'')),
     readFileSync = (\<lambda>w p.
        case map_of (stub_files w) p of
          Some b \<Rightarrow> Inr b
        | None \<Rightarrow> Inl (ExternalError ''ENOENT'')),
     mkdirSync = (\<lambda>w p.
        if map_of (stub_files w) p \<noteq> None then (Some (ExternalError ''EEXIST''), w)
        else if p \<in> set (stub_dirs w) then (None, w)
        else (None, w\<lparr>stub_dirs := stub_dirs w @ [p]\<rparr>)),
     writeFileSync = (\<lambda>w p b.
        if p \<in> set (stub_dirs w) then (Some (ExternalError ''EISDIR''), w)
        else (None, w\<lparr>stub_files := filter (\<lambda>f. fst f \<noteq> p) (stub_files w) @ [(p, b)]\<rparr>)),
     getModuleData = stub_decode,
     path_join = (\<lambda>a b. a @ ''/'' @ b),
     path_basename = stub_basename_ext,
     path_extname = stub_extname,
     path_resolve = (\<lambda>w p. ''/work/'' @ p) \<rparr>"

definition stub_world :: stub_fs where
  "stub_world = \<lparr>
     stub_dirs = [''music''],
     stub_files = [(''music/bad.xm'', [9]), (''music/a.mod'', [1]), (''music/b.IT'', [2]),
              (''music/notes.txt'', [7]), (''music/c.s3m'', [3]), (''song.txt'', [7])] \<rparr>"

definition stub_start :: "stub_fs pstate" where
  "stub_start = \<lparr>world = stub_world, console = []\<rparr>"

text \<open>The same, with a directory where the first sample of \<^verbatim>\<open>a.mod\<close> would be written.\<close>

definition stub_blocked :: "stub_fs pstate" where
  "stub_blocked =
     \<lparr>world = stub_world\<lparr>stub_dirs := [''music'', ''out/My_Song/01_kick.mp3'']\<rparr>,
      console = []\<rparr>"

section \<open>Properties of the normalizer\<close>

lemma is16bit_iff_bit: "is16bit s = bit (flg s) 2"
proof -
  have "(signed_take_bit 31 (flg s) AND 4 \<noteq> 0) = bit (signed_take_bit 31 (flg s)) 2"
    using and_exp_eq_0_iff_not_bit [of "signed_take_bit 31 (flg s)" 2] by simp
  also have "\<dots> = bit (flg s) 2"
    by (simp add: bit_signed_take_bit_iff)
  finally show ?thesis
    by (simp add: is16bit_def js_and_def to_int32_def XMP_SAMPLE_16BIT_def)
qed

lemma js_shl_int8:
  assumes "- 128 \<le> x" and "x < 128"
  shows "js_shl x 8 = x * 256"
proof -
  have small: "signed_take_bit 31 x = x"
    using assms by (simp add: signed_take_bit_int_eq_self_iff)
  have shifted: "signed_take_bit 31 (x * 256) = x * 256"
    using assms by (simp add: signed_take_bit_int_eq_self_iff)
  show ?thesis
    by (simp add: js_shl_def to_int32_def small push_bit_eq_mult shifted)
qed

lemma sint_to_int16_shl:
  assumes "- 128 \<le> x" and "x < 128"
  shows "sint (to_int16 (x * 256)) = x * 256"
proof -
  have "sint (word_of_int (x * 256) :: int16) = signed_take_bit 15 (x * 256)"
    unfolding sint_sbintrunc' by simp
  also have "\<dots> = x * 256"
    using assms by (simp add: signed_take_bit_int_eq_self_iff)
  finally show ?thesis
    unfolding to_int16_def .
qed

lemma sint_byte_range: "- 128 \<le> sint (b :: byte) \<and> sint b < 128"
  using sint_ge [of b] sint_lt [of b] by simp

lemma int8_elems_nth:
  assumes "wf_int8array a" and "j < alength a"
  shows "int8_elems a ! j = buffer a ! (byteOffset a + j)"
  using assms by (simp add: int8_elems_def wf_int8array_def)

lemma int8_get_elems:
  assumes "wf_int8array a" and "j < alength a"
  shows "int8_get a j = sint (int8_elems a ! j)"
  using assms by (simp add: int8_get_def int8_elems_nth) (simp add: wf_int8array_def)

lemma frame_8bit:
  assumes "wf_int8array a" and "j < alength a"
  shows "sint (to_int16 (js_shl (int8_get a j) 8)) = sint (int8_elems a ! j) * 256"
  using assms sint_byte_range [of "int8_elems a ! j"]
  by (simp add: int8_get_elems js_shl_int8 sint_to_int16_shl)

text \<open>
  C1. For a record whose 16-bit flag is clear and whose data is an \<^verbatim>\<open>Int8Array\<close>,
  \<open>normalizeToPcm16\<close> returns a PCM sequence with one frame per input byte, and the
  frame at index \<open>j\<close> is, as a signed 16-bit value, the signed input byte at index
  \<open>j\<close> times 256.
\<close>

theorem normalize_8bit_times_256:
  assumes "\<not> is16bit s" and "data s = Int8Array a" and "wf_int8array a"
  shows "\<exists>pcm. normalizeToPcm16 s = Inr pcm \<and> length pcm = alength a \<and>
           (\<forall>j<alength a. sint (pcm ! j) = sint (int8_elems a ! j) * 256)"
  using assms by (simp add: normalizeToPcm16_def frame_8bit)

theorem normalize_8bit_times_256_witness:
  "\<not> is16bit sample_8bit \<and>
   wf_int8array \<lparr>buffer = [- 128, 0, 127, - 1], byteOffset = 0, alength = 4\<rparr> \<and>
   normalizeToPcm16 sample_8bit = Inr [- 32768, 0, 32512, - 256] \<and>
   (\<exists>pcm. normalizeToPcm16 sample_8bit = Inr pcm \<and> length pcm = 4 \<and>
           (\<forall>j<4. sint (pcm ! j) = sint ([- 128, 0, 127, - 1 :: byte] ! j) * 256))"
proof -
  have f: "\<not> is16bit sample_8bit"
    by code_simp
  have d: "data sample_8bit =
      Int8Array \<lparr>buffer = [- 128, 0, 127, - 1], byteOffset = 0, alength = 4\<rparr>"
    by (simp add: sample_8bit_def)
  have w: "wf_int8array \<lparr>buffer = [- 128, 0, 127, - 1], byteOffset = 0, alength = 4\<rparr>"
    by (simp add: wf_int8array_def)
  have v: "normalizeToPcm16 sample_8bit = Inr [- 32768, 0, 32512, - 256]"
    by code_simp
  show ?thesis
    using normalize_8bit_times_256 [OF f d w] f w v by (simp add: int8_elems_def)
qed

text \<open>
  C3, as the claim states it, fails: a record with the 16-bit flag set and an
  \<^verbatim>\<open>Int8Array\<close> of three bytes at byte offset 0 is normalized to one frame.
\<close>

theorem normalize_16bit_odd_counterexample:
  "is16bit sample_16bit_odd \<and>
   data sample_16bit_odd = Int8Array \<lparr>buffer = [1, 2, 3], byteOffset = 0, alength = 3\<rparr> \<and>
   odd (3 :: nat) \<and>
   normalizeToPcm16 sample_16bit_odd = Inr [513]"
  by code_simp

text \<open>
  C3, amended. With the 16-bit flag set and an \<^verbatim>\<open>Int8Array\<close> of odd byte count \<open>n\<close>,
  \<open>normalizeToPcm16\<close> does not look at the parity of the byte count: when the view's
  byte offset is even it returns the \<open>n div 2\<close> little-endian frames made of the first
  \<open>n - 1\<close> bytes, and it fails, with the typed-array constructor's \<^verbatim>\<open>RangeError\<close>, exactly
  when the byte offset is odd.
\<close>

theorem normalize_16bit_odd_bytes:
  assumes "is16bit s" and "data s = Int8Array a" and "wf_int8array a" and "odd (alength a)"
  shows "normalizeToPcm16 s =
           (if even (byteOffset a)
            then Inr (map (\<lambda>i. le16 (int8_elems a ! (2 * i)) (int8_elems a ! (2 * i + 1)))
                        [0..<alength a div 2])
            else Inl RangeError)"
proof -
  have "byteOffset a + 2 * (alength a div 2) \<le> length (buffer a)"
    using assms(3) by (simp add: wf_int8array_def)
  moreover have "\<And>i. i < alength a div 2 \<Longrightarrow>
      int8_elems a ! (2 * i) = buffer a ! (byteOffset a + 2 * i) \<and>
      int8_elems a ! (2 * i + 1) = buffer a ! (byteOffset a + 2 * i + 1)"
    using assms(3) by (simp add: int8_elems_nth add.assoc)
  ultimately show ?thesis
    using assms(1,2) by (simp add: normalizeToPcm16_def new_Int16Array_def even_iff_mod_2_eq_zero)
qed

theorem normalize_16bit_odd_bytes_witness:
  "is16bit sample_16bit_odd \<and>
   wf_int8array \<lparr>buffer = [1, 2, 3], byteOffset = 0, alength = 3\<rparr> \<and>
   odd (alength \<lparr>buffer = [1, 2, 3 :: byte], byteOffset = 0, alength = 3\<rparr>) \<and>
   normalizeToPcm16 sample_16bit_odd = Inr [le16 1 2]"
proof -
  have f: "is16bit sample_16bit_odd"
    by code_simp
  have d: "data sample_16bit_odd = Int8Array \<lparr>buffer = [1, 2, 3], byteOffset = 0, alength = 3\<rparr>"
    by (simp add: sample_16bit_odd_def)
  have w: "wf_int8array \<lparr>buffer = [1, 2, 3], byteOffset = 0, alength = 3\<rparr>"
    by (simp add: wf_int8array_def)
  have p: "odd (alength \<lparr>buffer = [1, 2, 3 :: byte], byteOffset = 0, alength = 3\<rparr>)"
    by simp
  show ?thesis
    using normalize_16bit_odd_bytes [OF f d w p] f w p by (simp add: int8_elems_def)
qed

text \<open>
  C4, as the claim states it, fails: \<open>normalizeToPcm16\<close> never reads \<^verbatim>\<open>len\<close>. A record
  that declares 5 frames and holds 3 bytes is normalized to 3 frames.
\<close>

theorem normalize_length_counterexample:
  "normalizeToPcm16 sample_short = Inr [256, 512, 768] \<and>
   len sample_short = 5 \<and>
   int (length [256, 512, 768 :: int16]) \<noteq> len sample_short"
  by code_simp

text \<open>
  C4, amended. When \<open>normalizeToPcm16\<close> succeeds, the length of the PCM sequence is
  fixed by the data buffer and the 16-bit flag alone: the element count of an
  \<^verbatim>\<open>Int8Array\<close> on the 8-bit path, half its byte count (rounded down) on the 16-bit
  path, and the element count of an \<^verbatim>\<open>Int16Array\<close>. It equals \<^verbatim>\<open>len\<close> only for a record
  whose \<^verbatim>\<open>len\<close> is that number.
\<close>

theorem normalize_length:
  assumes "normalizeToPcm16 s = Inr pcm"
  shows "length pcm =
           (case data s of
              Int8Array a \<Rightarrow> if is16bit s then alength a div 2 else alength a
            | Int16Array w \<Rightarrow> length w
            | _ \<Rightarrow> 0)"
  using assms
  by (auto simp: normalizeToPcm16_def new_Int16Array_def split: if_splits sample_data.splits)

theorem normalize_length_witness:
  "normalizeToPcm16 sample_short = Inr [256, 512, 768] \<and>
   length [256, 512, 768 :: int16] = 3"
proof -
  have v: "normalizeToPcm16 sample_short = Inr [256, 512, 768]"
    by code_simp
  have f: "\<not> is16bit sample_short"
    by code_simp
  show ?thesis
    using normalize_length [OF v] v f by (simp add: sample_short_def)
qed

text \<open>
  C10. The result of \<open>normalizeToPcm16\<close> depends only on the data and on bit 2 (value 4)
  of the flag field: two records that agree on both have the same result, whatever their
  \<^verbatim>\<open>name\<close>, their \<^verbatim>\<open>len\<close> and the other flag bits are.
\<close>

theorem normalize_depends_on_data_and_flag:
  assumes "data s1 = data s2" and "bit (flg s1) 2 = bit (flg s2) 2"
  shows "normalizeToPcm16 s1 = normalizeToPcm16 s2"
  using assms by (simp add: normalizeToPcm16_def is16bit_iff_bit)

theorem normalize_depends_on_data_and_flag_witness:
  "data sample_short = data (sample_short\<lparr>name := ''other'', len := 3, flg := 3\<rparr>) \<and>
   bit (flg sample_short) 2 = bit (flg (sample_short\<lparr>name := ''other'', len := 3, flg := 3\<rparr>)) 2 \<and>
   normalizeToPcm16 sample_short =
     normalizeToPcm16 (sample_short\<lparr>name := ''other'', len := 3, flg := 3\<rparr>)"
proof -
  have d: "data sample_short = data (sample_short\<lparr>name := ''other'', len := 3, flg := 3\<rparr>)"
    by simp
  have b: "bit (flg sample_short) 2 =
      bit (flg (sample_short\<lparr>name := ''other'', len := 3, flg := 3\<rparr>)) 2"
    by code_simp
  show ?thesis
    using normalize_depends_on_data_and_flag [OF d b] d b by simp
qed

section \<open>Properties of the encoder adapter\<close>

lemma blocks_Nil: "blocks n [] = []"
  by (subst blocks.simps) simp

lemma blocks_drop:
  "k < length xs \<Longrightarrow> 0 < n \<Longrightarrow>
     blocks n (drop k xs) = take n (drop k xs) # blocks n (drop (k + n) xs)"
  by (subst blocks.simps) (simp add: add.commute)

lemma blocks_append:
  "length xs = n \<Longrightarrow> 0 < n \<Longrightarrow> blocks n (xs @ ys) = xs # blocks n ys"
  by (subst blocks.simps) auto

lemma blocks_short:
  "length xs \<le> n \<Longrightarrow> xs \<noteq> [] \<Longrightarrow> blocks n xs = [xs]"
  by (subst blocks.simps) (cases n; auto simp: blocks_Nil)

lemma blocks_concat: "concat (blocks 1152 xs) = xs"
proof (induction "1152 :: nat" xs rule: blocks.induct)
  case (1 xs)
  then show ?case by (subst blocks.simps) auto
qed

lemma blocks_nonempty: "b \<in> set (blocks n xs) \<Longrightarrow> b \<noteq> [] \<and> length b \<le> n"
proof (induction n xs rule: blocks.induct)
  case (1 n xs)
  show ?case
  proof (cases "n = 0 \<or> xs = []")
    case True
    with "1.prems" show ?thesis by (simp add: blocks.simps [of n xs])
  next
    case False
    with "1.prems" have "b = take n xs \<or> b \<in> set (blocks n (drop n xs))"
      by (simp add: blocks.simps [of n xs])
    then show ?thesis
    proof
      assume "b = take n xs"
      with False show ?thesis by simp
    next
      assume "b \<in> set (blocks n (drop n xs))"
      with "1.IH" False show ?thesis by blast
    qed
  qed
qed

lemma blocks_full: "b \<in> set (butlast (blocks n xs)) \<Longrightarrow> length b = n"
proof (induction n xs rule: blocks.induct)
  case (1 n xs)
  show ?case
  proof (cases "n = 0 \<or> xs = []")
    case True
    with "1.prems" show ?thesis by (simp add: blocks.simps [of n xs])
  next
    case False
    show ?thesis
    proof (cases "blocks n (drop n xs) = []")
      case True
      with "1.prems" False show ?thesis by (simp add: blocks.simps [of n xs])
    next
      case ne: False
      then have "drop n xs \<noteq> []" using blocks_Nil by metis
      then have len: "n < length xs" by simp
      from "1.prems" False ne
      have "b = take n xs \<or> b \<in> set (butlast (blocks n (drop n xs)))"
        by (simp add: blocks.simps [of n xs])
      then show ?thesis
      proof
        assume "b = take n xs"
        with len show ?thesis by simp
      next
        assume "b \<in> set (butlast (blocks n (drop n xs)))"
        with "1.IH" False show ?thesis by blast
      qed
    qed
  qed
qed

lemma encode_loop_feed:
  "encode_loop enc pcm k st acc =
     (case feed enc st (blocks MP3_BLOCK_SIZE (drop k pcm)) of
        Inl e \<Rightarrow> Inl e
      | Inr (outs, st') \<Rightarrow> Inr (acc @ filter (\<lambda>c. c \<noteq> []) outs, st'))"
proof (induction enc pcm k st acc rule: encode_loop.induct)
  case (1 enc pcm16 k st mp3Data)
  show ?case
  proof (cases "k < length pcm16")
    case False
    then show ?thesis
      by (subst encode_loop.simps) (simp add: blocks_Nil)
  next
    case True
    have pos: "0 < MP3_BLOCK_SIZE" by (simp add: MP3_BLOCK_SIZE_def)
    note bl = blocks_drop [OF True pos]
    show ?thesis
    proof (cases "encodeBuffer enc st (take MP3_BLOCK_SIZE (drop k pcm16))")
      case (Inl e)
      with True show ?thesis
        by (subst encode_loop.simps) (simp add: bl)
    next
      case (Inr r)
      obtain mp3buf st' where r: "r = (mp3buf, st')" by (cases r)
      have ih: "encode_loop enc pcm16 (k + MP3_BLOCK_SIZE) st'
               (if 0 < length mp3buf then mp3Data @ [mp3buf] else mp3Data) =
            (case feed enc st' (blocks MP3_BLOCK_SIZE (drop (k + MP3_BLOCK_SIZE) pcm16)) of
               Inl e \<Rightarrow> Inl e
             | Inr (outs, st'') \<Rightarrow>
                 Inr ((if 0 < length mp3buf then mp3Data @ [mp3buf] else mp3Data) @
                      filter (\<lambda>c. c \<noteq> []) outs, st''))"
        using "1.IH" [OF True] Inr r by simp
      have step: "encode_loop enc pcm16 k st mp3Data =
          encode_loop enc pcm16 (k + MP3_BLOCK_SIZE) st'
               (if 0 < length mp3buf then mp3Data @ [mp3buf] else mp3Data)"
        using True Inr r by (subst encode_loop.simps) simp
      show ?thesis
        unfolding step ih bl using Inr r
        by (cases "feed enc st' (blocks MP3_BLOCK_SIZE (drop (k + MP3_BLOCK_SIZE) pcm16))")
           (auto split: prod.splits)
    qed
  qed
qed

lemma encodeToMp3_run_spec: "encodeToMp3_run enc pcm rate = encode_spec enc pcm rate"
proof -
  have "encode_loop enc pcm 0 st [] =
      (case feed enc st (blocks 1152 pcm) of
         Inl e \<Rightarrow> Inl e
       | Inr (outs, st') \<Rightarrow> Inr (filter (\<lambda>c. c \<noteq> []) outs, st'))" for st
    using encode_loop_feed [of enc pcm 0 st "[]"]
    by (simp add: MP3_BLOCK_SIZE_def split: sum.splits prod.splits)
  then show ?thesis
    by (simp add: encodeToMp3_run_def encode_spec_def MP3_KBPS_def
        split: sum.splits prod.splits)
qed

lemma feed_recorder:
  "\<exists>outs. feed recorder st bs = Inr (outs, st @ map EncodeCall bs)"
proof (induction bs arbitrary: st)
  case Nil
  show ?case by simp
next
  case (Cons b bs)
  obtain outs where
    "feed recorder (st @ [EncodeCall b]) bs = Inr (outs, (st @ [EncodeCall b]) @ map EncodeCall bs)"
    using Cons.IH by blast
  then show ?case by (simp add: recorder_def)
qed

lemma recorder_calls:
  "\<exists>mp3. encodeToMp3_run recorder pcm rate =
      Inr (mp3, Constructed 1 rate 128 # map EncodeCall (blocks 1152 pcm) @ [FlushCall])"
proof -
  obtain outs where "feed recorder [Constructed 1 rate 128] (blocks 1152 pcm)
       = Inr (outs, [Constructed 1 rate 128] @ map EncodeCall (blocks 1152 pcm))"
    using feed_recorder by blast
  moreover have "Mp3Encoder recorder 1 rate 128 = Inr [Constructed 1 rate 128]"
    by (simp add: recorder_def)
  moreover have "flush recorder st = Inr ([255], st @ [FlushCall])" for st
    by (simp add: recorder_def)
  ultimately show ?thesis
    by (simp add: encodeToMp3_run_spec encode_spec_def)
qed

lemma recorder_new: "Mp3Encoder recorder c r k = Inr [Constructed c r k]"
  by (simp add: recorder_def)

lemma recorder_encodeBuffer:
  "encodeBuffer recorder st b =
     Inr (if length b = 1152 then [of_nat (length st)] else [], st @ [EncodeCall b])"
  by (simp add: recorder_def)

lemma recorder_flush: "flush recorder st = Inr ([255], st @ [FlushCall])"
  by (simp add: recorder_def)

text \<open>
  C2. For every encoder, PCM sequence and target rate, \<open>encodeToMp3\<close> is the adapter of
  the specification: the encoder is constructed, fed the blocks of \<open>blocks 1152 pcm\<close> in
  order, flushed once after the last block, and the result is the concatenation of the
  non-empty chunks in call order with the flush output last (an exception of the
  encoder ends the call at once and is passed on). The blocks are consecutive and
  non-overlapping (their concatenation is the input), none is empty or longer than 1152
  frames, and all but the last have exactly 1152 frames. On the recording encoder the
  calls are exactly: the constructor with one channel, the rate and 128 kbps, one
  \<^verbatim>\<open>encodeBuffer\<close> per block in input order, one \<^verbatim>\<open>flush\<close>.
\<close>

theorem encodeToMp3_blocks_then_flush:
  "encodeToMp3_run enc pcm rate = encode_spec enc pcm rate \<and>
   encodeToMp3 enc pcm rate =
     (case encode_spec enc pcm rate of Inl e \<Rightarrow> Inl e | Inr (mp3, st) \<Rightarrow> Inr mp3) \<and>
   concat (blocks 1152 pcm) = pcm \<and>
   (\<forall>b \<in> set (blocks 1152 pcm). b \<noteq> [] \<and> length b \<le> 1152) \<and>
   (\<forall>b \<in> set (butlast (blocks 1152 pcm)). length b = 1152) \<and>
   (\<exists>mp3. encodeToMp3_run recorder pcm rate =
      Inr (mp3, Constructed 1 rate 128 # map EncodeCall (blocks 1152 pcm) @ [FlushCall]))"
proof (intro conjI)
  show "encodeToMp3_run enc pcm rate = encode_spec enc pcm rate"
    by (rule encodeToMp3_run_spec)
  show "encodeToMp3 enc pcm rate =
     (case encode_spec enc pcm rate of Inl e \<Rightarrow> Inl e | Inr (mp3, st) \<Rightarrow> Inr mp3)"
    by (simp add: encodeToMp3_def encodeToMp3_run_spec)
  show "concat (blocks 1152 pcm) = pcm"
    by (rule blocks_concat)
  show "\<forall>b \<in> set (blocks 1152 pcm). b \<noteq> [] \<and> length b \<le> 1152"
    using blocks_nonempty by blast
  show "\<forall>b \<in> set (butlast (blocks 1152 pcm)). length b = 1152"
    using blocks_full by blast
  show "\<exists>mp3. encodeToMp3_run recorder pcm rate =
      Inr (mp3, Constructed 1 rate 128 # map EncodeCall (blocks 1152 pcm) @ [FlushCall])"
    by (rule recorder_calls)
qed

theorem encodeToMp3_blocks_then_flush_witness:
  "encodeToMp3_run recorder (replicate 1152 1 @ replicate 1152 2 @ [3, 4]) (Num 22050) =
     Inr ([1, 2, 255],
          [Constructed 1 (Num 22050) 128, EncodeCall (replicate 1152 1),
           EncodeCall (replicate 1152 2), EncodeCall [3, 4], FlushCall])"
proof -
  have b: "blocks 1152 (replicate 1152 (1 :: int16) @ replicate 1152 2 @ [3, 4]) =
      [replicate 1152 1, replicate 1152 2, [3, 4]]"
    by (simp add: blocks_append blocks_short)
  have e: "encode_spec recorder (replicate 1152 1 @ replicate 1152 2 @ [3, 4]) (Num 22050) =
     Inr ([1, 2, 255],
          [Constructed 1 (Num 22050) 128, EncodeCall (replicate 1152 1),
           EncodeCall (replicate 1152 2), EncodeCall [3, 4], FlushCall])"
    by (simp add: encode_spec_def b recorder_new recorder_encodeBuffer recorder_flush)
  show ?thesis
    using encodeToMp3_blocks_then_flush
      [of recorder "replicate 1152 1 @ replicate 1152 2 @ [3, 4]" "Num 22050"] e
    by simp
qed

section \<open>Properties of the orchestrator\<close>

lemma world_put: "world (put e st) = world st"
  by (simp add: put_def)

lemma processSample_empty:
  "sample_is_empty s \<Longrightarrow> processSample sys enc dir rate i s (cnt, st) = (cnt, st)"
  by (simp add: processSample_def)

lemma processSample_normalize_fails:
  "\<not> sample_is_empty s \<Longrightarrow> normalizeToPcm16 s = Inl e \<Longrightarrow>
     processSample sys enc dir rate i s (cnt, st) =
       (cnt, put (ErrSampleFailed i (sampleNameRaw i s) e) st)"
  by (simp add: processSample_def)

lemma processSample_encode_fails:
  "\<not> sample_is_empty s \<Longrightarrow> normalizeToPcm16 s = Inr pcm \<Longrightarrow>
   encodeToMp3 enc pcm rate = Inl e \<Longrightarrow>
     processSample sys enc dir rate i s (cnt, st) =
       (cnt, put (ErrSampleFailed i (sampleNameRaw i s) e) st)"
  by (simp add: processSample_def)

lemma processSample_write_fails:
  "\<not> sample_is_empty s \<Longrightarrow> normalizeToPcm16 s = Inr pcm \<Longrightarrow>
   encodeToMp3 enc pcm rate = Inr mp3 \<Longrightarrow>
   writeFileSync sys (world st) (path_join sys dir (outputFileName i s)) mp3 = (Some e, w') \<Longrightarrow>
     processSample sys enc dir rate i s (cnt, st) =
       (cnt, put (ErrSampleFailed i (sampleNameRaw i s) e) (st\<lparr>world := w'\<rparr>))"
  by (simp add: processSample_def)

lemma processFile_load_fails:
  "loadModuleData sys (world st) filePath = Inl e \<Longrightarrow>
     processFile sys enc filePath outputDir rate st =
       (Returned, put (ErrLoadFailed filePath e) (put (LogProcessing filePath) st))"
  by (simp add: processFile_def world_put)

lemma processFile_no_samples:
  "loadModuleData sys (world st) filePath = Inr m \<Longrightarrow>
   m = None \<or> (\<exists>md. m = Some md \<and> (samples md = None \<or> samples md = Some [])) \<Longrightarrow>
     processFile sys enc filePath outputDir rate st =
       (Returned, put (InfoNoSamples filePath) (put (LogProcessing filePath) st))"
  by (auto simp: processFile_def world_put)

lemma processFile_samples:
  "loadModuleData sys (world st) filePath = Inr (Some md) \<Longrightarrow> samples md = Some ss \<Longrightarrow>
   ss \<noteq> [] \<Longrightarrow>
     processFile sys enc filePath outputDir rate st =
       (case mkdirSync sys (world st) (moduleOutputDir_of sys filePath outputDir md) of
          (Some e, w1) \<Rightarrow> (Thrown e, put (LogProcessing filePath) st\<lparr>world := w1\<rparr>)
        | (None, w1) \<Rightarrow>
            (case processSamples sys enc (moduleOutputDir_of sys filePath outputDir md) rate 0 ss
                    (0, put (LogProcessing filePath) st\<lparr>world := w1\<rparr>) of
               (extractedCount, st2) \<Rightarrow>
                 (Returned,
                  put (LogDone extractedCount (length ss)
                         (moduleOutputDir_of sys filePath outputDir md)) st2)))"
  by (simp add: processFile_def world_put Let_def)

lemma sampleRate_of_cases:
  "sampleRate_of argv =
     (case argv_at argv 4 of
        None \<Rightarrow> Num 22050
      | Some a \<Rightarrow> if a = [] then Num 22050 else parseInt10 a)"
proof -
  have d: "parseInt10 ''22050'' = Num 22050"
    by code_simp
  show ?thesis
    by (simp add: sampleRate_of_def js_or_def d split: option.splits)
qed

lemma run_input_not_found:
  "\<not> existsSync sys (world st) inputPath \<Longrightarrow>
     run sys enc inputPath outputDir rate st = (Exited 1, put (ErrInputNotFound inputPath) st)"
  by (simp add: run_def)

lemma run_invalid_input_returns:
  assumes "existsSync sys (world st) inputPath"
    and "mkdirSync sys (world st) outputDir = (None, w1)"
    and "statSync sys w1 inputPath = Inr s"
    and "\<not> isDirectory s"
    and "\<not> (isFile s \<and> valid_extension (path_extname sys inputPath))"
  shows "fst (run sys enc inputPath outputDir rate st) = Returned \<and>
         exit_status (fst (run sys enc inputPath outputDir rate st)) = 0"
proof -
  have "run sys enc inputPath outputDir rate st =
      finish (Returned, put (ErrInvalidInput inputPath)
        (put LogSeparator (put (LogRate rate)
           (put (LogOutput (path_resolve sys w1 outputDir))
              (put (LogInput (path_resolve sys w1 inputPath))
                 (put LogStart (st\<lparr>world := w1\<rparr>)))))))"
    using assms(1-4) assms(5) [unfolded de_Morgan_conj]
    by (auto simp: run_def Let_def world_put)
  then show ?thesis
    by (simp add: finish_def)
qed

text \<open>
  C5, as the claim states it, fails: with the fifth argument \<^verbatim>\<open>abc\<close>, which does not parse
  as a number, the run goes through with the sample rate \<^verbatim>\<open>NaN\<close> (printed in the rate
  line), not with 22050.
\<close>

theorem sample_rate_default_counterexample:
  "argv_at [''node'', ''extract.js'', ''music/a.mod'', ''out'', ''abc''] 4 = Some ''abc'' \<and>
   parseInt10 ''abc'' = NaN \<and>
   main stub_sys recorder [''node'', ''extract.js'', ''music/a.mod'', ''out'', ''abc''] stub_start =
     (Returned,
      \<lparr>world = stub_world\<lparr>stub_dirs := [''music'', ''out'', ''out/My_Song''],
                 stub_files := stub_files stub_world @ [(''out/My_Song/01_kick.mp3'', [255])]\<rparr>,
       console = [LogStart, LogInput ''/work/music/a.mod'', LogOutput ''/work/out'',
                  LogRate NaN, LogSeparator, LogProcessing ''music/a.mod'',
                  ErrSampleFailed 2 ''pad'' UnknownFormat8,
                  LogDone 1 3 ''out/My_Song'', LogFinished]\<rparr>)"
  by code_simp

text \<open>
  C5, amended. When both required arguments are given, \<open>main\<close> runs the pipeline with
  the target sample rate 22050 if the sample-rate argument is omitted or is the empty
  string, and otherwise with \<^verbatim>\<open>parseInt\<close> of the argument in base 10, which is \<^verbatim>\<open>NaN\<close> for
  a string that does not start (after white space and a sign) with a digit: no default
  replaces it.
\<close>

theorem main_sample_rate:
  assumes "argv_at argv 2 = Some inputPath" and "inputPath \<noteq> []"
    and "argv_at argv 3 = Some outputDir" and "outputDir \<noteq> []"
  shows "main sys enc argv st =
           run sys enc inputPath outputDir
             (case argv_at argv 4 of
                None \<Rightarrow> Num 22050
              | Some a \<Rightarrow> if a = [] then Num 22050 else parseInt10 a) st"
  using assms by (simp add: main_def sampleRate_of_cases)

theorem main_sample_rate_witness:
  "main stub_sys recorder [''node'', ''extract.js'', ''music/a.mod'', ''out''] stub_start =
     run stub_sys recorder ''music/a.mod'' ''out'' (Num 22050) stub_start \<and>
   main stub_sys recorder [''node'', ''extract.js'', ''music/a.mod'', ''out'', ''8000Hz''] stub_start =
     run stub_sys recorder ''music/a.mod'' ''out'' (Num 8000) stub_start \<and>
   main stub_sys recorder [''node'', ''extract.js'', ''music/a.mod'', ''out'', ''fast''] stub_start =
     run stub_sys recorder ''music/a.mod'' ''out'' NaN stub_start"
proof -
  have a2: "argv_at ([''node'', ''extract.js'', ''music/a.mod'', ''out''] @ r) 2 =
      Some ''music/a.mod''" for r
    by (simp add: argv_at_def)
  have a3: "argv_at ([''node'', ''extract.js'', ''music/a.mod'', ''out''] @ r) 3 = Some ''out''"
    for r
    by (simp add: argv_at_def)
  have n1: "''music/a.mod'' \<noteq> []" and n2: "''out'' \<noteq> []"
    by simp_all
  have r0: "(case argv_at [''node'', ''extract.js'', ''music/a.mod'', ''out''] 4 of
                None \<Rightarrow> Num 22050
              | Some a \<Rightarrow> if a = [] then Num 22050 else parseInt10 a) = Num 22050"
    by (simp add: argv_at_def)
  have r1: "(case argv_at [''node'', ''extract.js'', ''music/a.mod'', ''out'', ''8000Hz''] 4 of
                None \<Rightarrow> Num 22050
              | Some a \<Rightarrow> if a = [] then Num 22050 else parseInt10 a) = Num 8000"
    by code_simp
  have r2: "(case argv_at [''node'', ''extract.js'', ''music/a.mod'', ''out'', ''fast''] 4 of
                None \<Rightarrow> Num 22050
              | Some a \<Rightarrow> if a = [] then Num 22050 else parseInt10 a) = NaN"
    by code_simp
  show ?thesis
    using main_sample_rate [OF a2 [of "[]"] n1 a3 [of "[]"] n2, of stub_sys recorder stub_start]
      main_sample_rate [OF a2 [of "[''8000Hz'']"] n1 a3 [of "[''8000Hz'']"] n2,
        of stub_sys recorder stub_start]
      main_sample_rate [OF a2 [of "[''fast'']"] n1 a3 [of "[''fast'']"] n2,
        of stub_sys recorder stub_start]
    by (simp only: r0 r1 r2 append_Cons append_Nil simp_thms)
qed

text \<open>
  C6. A sample whose \<^verbatim>\<open>len\<close> is at most 0, or whose data is absent, or whose data has
  length 0, is skipped: the loop body leaves the success counter, the filesystem and the
  console as they were (no file, no count, no failure line), and the loop goes on with
  the next sample.
\<close>

theorem empty_sample_skipped:
  assumes "len s \<le> 0 \<or> data s = NoData \<or> data_length (data s) = Some 0"
  shows "processSample sys enc dir rate i s (cnt, st) = (cnt, st) \<and>
         processSamples sys enc dir rate i (s # rest) (cnt, st) =
           processSamples sys enc dir rate (i + 1) rest (cnt, st)"
proof -
  from assms have "sample_is_empty s"
    by (simp add: sample_is_empty_def)
  then show ?thesis
    by (simp add: processSample_empty)
qed

theorem empty_sample_skipped_witness:
  "len sample_unused \<le> 0 \<and>
   processSample stub_sys recorder ''out/My_Song'' (Num 22050) 1 sample_unused (1, stub_start) =
     (1, stub_start) \<and>
   processSamples stub_sys recorder ''out/My_Song'' (Num 22050) 1
       [sample_unused, sample_wrong_type] (1, stub_start) =
     processSamples stub_sys recorder ''out/My_Song'' (Num 22050) (1 + 1)
       [sample_wrong_type] (1, stub_start) \<and>
   processSamples stub_sys recorder ''out/My_Song'' (Num 22050) 1
       [sample_unused, sample_wrong_type] (1, stub_start) =
     (1, \<lparr>world = stub_world, console = [ErrSampleFailed 2 ''pad'' UnknownFormat8]\<rparr>)"
proof -
  have h: "len sample_unused \<le> 0"
    by (simp add: sample_unused_def)
  then have t: "len sample_unused \<le> 0 \<or> data sample_unused = NoData \<or>
      data_length (data sample_unused) = Some 0"
    by (rule disjI1)
  note inst = empty_sample_skipped [OF t, of stub_sys recorder "''out/My_Song''" "Num 22050" 1 1
      stub_start "[sample_wrong_type]"]
  have v: "processSamples stub_sys recorder ''out/My_Song'' (Num 22050) (1 + 1)
       [sample_wrong_type] (1, stub_start) =
     (1, \<lparr>world = stub_world, console = [ErrSampleFailed 2 ''pad'' UnknownFormat8]\<rparr>)"
    by code_simp
  from inst have s1: "processSample stub_sys recorder ''out/My_Song'' (Num 22050) 1
      sample_unused (1, stub_start) = (1, stub_start)"
    by (rule conjunct1)
  from inst have s2: "processSamples stub_sys recorder ''out/My_Song'' (Num 22050) 1
       [sample_unused, sample_wrong_type] (1, stub_start) =
     processSamples stub_sys recorder ''out/My_Song'' (Num 22050) (1 + 1)
       [sample_wrong_type] (1, stub_start)"
    by (rule conjunct2)
  from s2 v have s3: "processSamples stub_sys recorder ''out/My_Song'' (Num 22050) 1
       [sample_unused, sample_wrong_type] (1, stub_start) =
     (1, \<lparr>world = stub_world, console = [ErrSampleFailed 2 ''pad'' UnknownFormat8]\<rparr>)"
    by (rule trans)
  from h s1 s2 s3 show ?thesis
    by (intro conjI)
qed

text \<open>
  C7. When the normalization, the encoding or the writing of sample \<open>i\<close> fails with
  \<open>e\<close>, the loop does not stop: the success counter is unchanged, one error line with
  the index \<open>i\<close>, the sample's name and \<open>e\<close> is printed, and the loop goes on with
  sample \<open>i + 1\<close> (in the world \<open>w'\<close> that the failed write left, or the unchanged one).
  Likewise, when loading or decoding a file of a directory batch fails with \<open>e\<close>, the
  failure is printed with the file's path and the iteration goes on with the remaining
  files.
\<close>

theorem failure_does_not_abort:
  "(\<not> sample_is_empty s \<and>
      (normalizeToPcm16 s = Inl e \<and> w' = world st \<or>
       (\<exists>pcm. normalizeToPcm16 s = Inr pcm \<and>
          (encodeToMp3 enc pcm rate = Inl e \<and> w' = world st \<or>
           (\<exists>mp3. encodeToMp3 enc pcm rate = Inr mp3 \<and>
              writeFileSync sys (world st) (path_join sys dir (outputFileName i s)) mp3 =
                (Some e, w'))))) \<longrightarrow>
    processSamples sys enc dir rate i (s # rest) (cnt, st) =
      processSamples sys enc dir rate (i + 1) rest
        (cnt, put (ErrSampleFailed i (sampleNameRaw i s) e) (st\<lparr>world := w'\<rparr>))) \<and>
   (statSync sys (world st) (path_join sys inputPath file) = Inr fstat \<and> isFile fstat \<and>
      valid_extension (path_extname sys file) \<and>
      loadModuleData sys (world st) (path_join sys inputPath file) = Inl e \<longrightarrow>
    processDir sys enc inputPath outputDir rate (file # others) st =
      processDir sys enc inputPath outputDir rate others
        (put (ErrLoadFailed (path_join sys inputPath file) e)
           (put (LogProcessing (path_join sys inputPath file)) st)))"
proof (intro conjI impI)
  assume a: "\<not> sample_is_empty s \<and>
      (normalizeToPcm16 s = Inl e \<and> w' = world st \<or>
       (\<exists>pcm. normalizeToPcm16 s = Inr pcm \<and>
          (encodeToMp3 enc pcm rate = Inl e \<and> w' = world st \<or>
           (\<exists>mp3. encodeToMp3 enc pcm rate = Inr mp3 \<and>
              writeFileSync sys (world st) (path_join sys dir (outputFileName i s)) mp3 =
                (Some e, w')))))"
  then have "processSample sys enc dir rate i s (cnt, st) =
      (cnt, put (ErrSampleFailed i (sampleNameRaw i s) e) (st\<lparr>world := w'\<rparr>))"
    by (auto simp: processSample_normalize_fails processSample_encode_fails
        processSample_write_fails)
  then show "processSamples sys enc dir rate i (s # rest) (cnt, st) =
      processSamples sys enc dir rate (i + 1) rest
        (cnt, put (ErrSampleFailed i (sampleNameRaw i s) e) (st\<lparr>world := w'\<rparr>))"
    by simp
next
  assume "statSync sys (world st) (path_join sys inputPath file) = Inr fstat \<and> isFile fstat \<and>
      valid_extension (path_extname sys file) \<and>
      loadModuleData sys (world st) (path_join sys inputPath file) = Inl e"
  then show "processDir sys enc inputPath outputDir rate (file # others) st =
      processDir sys enc inputPath outputDir rate others
        (put (ErrLoadFailed (path_join sys inputPath file) e)
           (put (LogProcessing (path_join sys inputPath file)) st))"
    by (simp add: processFile_load_fails)
qed

theorem failure_does_not_abort_witness:
  "\<not> sample_is_empty sample_wrong_type \<and>
   normalizeToPcm16 sample_wrong_type = Inl UnknownFormat8 \<and>
   processSamples stub_sys recorder ''out/My_Song'' (Num 22050) 0
       [sample_wrong_type, sample_8bit] (0, stub_start) =
     (1, \<lparr>world = stub_world\<lparr>stub_files := stub_files stub_world @
                  [(''out/My_Song/02_kick.mp3'', [255])]\<rparr>,
          console = [ErrSampleFailed 0 ''pad'' UnknownFormat8]\<rparr>) \<and>
   encodeToMp3 broken_encoder [- 32768, 0, 32512, - 256] (Num 22050) =
     Inl (ExternalError ''no encoder'') \<and>
   processSamples stub_sys broken_encoder ''out/My_Song'' (Num 22050) 0
       [sample_8bit, sample_unused] (0, stub_start) =
     (0, \<lparr>world = stub_world,
          console = [ErrSampleFailed 0 ''kick'' (ExternalError ''no encoder'')]\<rparr>) \<and>
   writeFileSync stub_sys (world stub_blocked)
       (path_join stub_sys ''out/My_Song'' (outputFileName 0 sample_8bit)) [255] =
     (Some (ExternalError ''EISDIR''), world stub_blocked) \<and>
   processSamples stub_sys recorder ''out/My_Song'' (Num 22050) 0
       [sample_8bit, sample_unused] (0, stub_blocked) =
     (0, \<lparr>world = world stub_blocked,
          console = [ErrSampleFailed 0 ''kick'' (ExternalError ''EISDIR'')]\<rparr>) \<and>
   statSync stub_sys (world stub_start) (path_join stub_sys ''music'' ''bad.xm'') =
     Inr \<lparr>isDirectory = False, isFile = True\<rparr> \<and>
   valid_extension (path_extname stub_sys ''bad.xm'') \<and>
   loadModuleData stub_sys (world stub_start) (path_join stub_sys ''music'' ''bad.xm'') =
     Inl (ExternalError ''not a module'') \<and>
   processDir stub_sys recorder ''music'' ''out'' (Num 22050) [''bad.xm'', ''b.IT''] stub_start =
     (Returned,
      \<lparr>world = stub_world\<lparr>stub_dirs := [''music'', ''out/b'']\<rparr>,
       console = [LogProcessing ''music/bad.xm'',
                  ErrLoadFailed ''music/bad.xm'' (ExternalError ''not a module''),
                  LogProcessing ''music/b.IT'',
                  ErrSampleFailed 0 ''pad'' UnknownFormat8,
                  LogDone 0 1 ''out/b'']\<rparr>)"
proof -
  have h1: "\<not> sample_is_empty sample_wrong_type"
    by code_simp
  have h2: "normalizeToPcm16 sample_wrong_type = Inl UnknownFormat8"
    by code_simp
  have h3: "statSync stub_sys (world stub_start) (path_join stub_sys ''music'' ''bad.xm'') =
     Inr \<lparr>isDirectory = False, isFile = True\<rparr>"
    by code_simp
  have h4: "valid_extension (path_extname stub_sys ''bad.xm'')"
    by code_simp
  have h5: "loadModuleData stub_sys (world stub_start) (path_join stub_sys ''music'' ''bad.xm'') =
     Inl (ExternalError ''not a module'')"
    by code_simp
  have h6: "isFile \<lparr>isDirectory = False, isFile = True\<rparr>"
    by simp
  have k1: "\<not> sample_is_empty sample_8bit"
    by code_simp
  have k2: "normalizeToPcm16 sample_8bit = Inr [- 32768, 0, 32512, - 256]"
    by code_simp
  have k3: "encodeToMp3 broken_encoder [- 32768, 0, 32512, - 256] (Num 22050) =
     Inl (ExternalError ''no encoder'')"
    by code_simp
  have k4: "encodeToMp3 recorder [- 32768, 0, 32512, - 256] (Num 22050) = Inr [255]"
    by code_simp
  have k5: "writeFileSync stub_sys (world stub_blocked)
       (path_join stub_sys ''out/My_Song'' (outputFileName 0 sample_8bit)) [255] =
     (Some (ExternalError ''EISDIR''), world stub_blocked)"
    by code_simp
  have v1: "processSamples stub_sys recorder ''out/My_Song'' (Num 22050) (0 + 1) [sample_8bit]
       (0, put (ErrSampleFailed 0 (sampleNameRaw 0 sample_wrong_type) UnknownFormat8)
             (stub_start\<lparr>world := world stub_start\<rparr>)) =
     (1, \<lparr>world = stub_world\<lparr>stub_files := stub_files stub_world @
                  [(''out/My_Song/02_kick.mp3'', [255])]\<rparr>,
          console = [ErrSampleFailed 0 ''pad'' UnknownFormat8]\<rparr>)"
    by code_simp
  have v2: "processDir stub_sys recorder ''music'' ''out'' (Num 22050) [''b.IT'']
        (put (ErrLoadFailed (path_join stub_sys ''music'' ''bad.xm'')
                (ExternalError ''not a module''))
           (put (LogProcessing (path_join stub_sys ''music'' ''bad.xm'')) stub_start)) =
     (Returned,
      \<lparr>world = stub_world\<lparr>stub_dirs := [''music'', ''out/b'']\<rparr>,
       console = [LogProcessing ''music/bad.xm'',
                  ErrLoadFailed ''music/bad.xm'' (ExternalError ''not a module''),
                  LogProcessing ''music/b.IT'',
                  ErrSampleFailed 0 ''pad'' UnknownFormat8,
                  LogDone 0 1 ''out/b'']\<rparr>)"
    by code_simp
  have v3: "processSamples stub_sys broken_encoder ''out/My_Song'' (Num 22050) (0 + 1)
       [sample_unused]
       (0, put (ErrSampleFailed 0 (sampleNameRaw 0 sample_8bit) (ExternalError ''no encoder''))
             (stub_start\<lparr>world := world stub_start\<rparr>)) =
     (0, \<lparr>world = stub_world,
          console = [ErrSampleFailed 0 ''kick'' (ExternalError ''no encoder'')]\<rparr>)"
    by code_simp
  have v4: "processSamples stub_sys recorder ''out/My_Song'' (Num 22050) (0 + 1)
       [sample_unused]
       (0, put (ErrSampleFailed 0 (sampleNameRaw 0 sample_8bit) (ExternalError ''EISDIR''))
             (stub_blocked\<lparr>world := world stub_blocked\<rparr>)) =
     (0, \<lparr>world = world stub_blocked,
          console = [ErrSampleFailed 0 ''kick'' (ExternalError ''EISDIR'')]\<rparr>)"
    by code_simp
  from h1 h2 have p1: "\<not> sample_is_empty sample_wrong_type \<and>
      (normalizeToPcm16 sample_wrong_type = Inl UnknownFormat8 \<and>
         world stub_start = world stub_start \<or>
       (\<exists>pcm. normalizeToPcm16 sample_wrong_type = Inr pcm \<and>
          (encodeToMp3 recorder pcm (Num 22050) = Inl UnknownFormat8 \<and>
             world stub_start = world stub_start \<or>
           (\<exists>mp3. encodeToMp3 recorder pcm (Num 22050) = Inr mp3 \<and>
              writeFileSync stub_sys (world stub_start)
                (path_join stub_sys ''out/My_Song'' (outputFileName 0 sample_wrong_type)) mp3 =
                (Some UnknownFormat8, world stub_start)))))"
    by blast
  from k1 k2 k3 have p3: "\<not> sample_is_empty sample_8bit \<and>
      (normalizeToPcm16 sample_8bit = Inl (ExternalError ''no encoder'') \<and>
         world stub_start = world stub_start \<or>
       (\<exists>pcm. normalizeToPcm16 sample_8bit = Inr pcm \<and>
          (encodeToMp3 broken_encoder pcm (Num 22050) = Inl (ExternalError ''no encoder'') \<and>
             world stub_start = world stub_start \<or>
           (\<exists>mp3. encodeToMp3 broken_encoder pcm (Num 22050) = Inr mp3 \<and>
              writeFileSync stub_sys (world stub_start)
                (path_join stub_sys ''out/My_Song'' (outputFileName 0 sample_8bit)) mp3 =
                (Some (ExternalError ''no encoder''), world stub_start)))))"
    by blast
  from k1 k2 k4 k5 have p4: "\<not> sample_is_empty sample_8bit \<and>
      (normalizeToPcm16 sample_8bit = Inl (ExternalError ''EISDIR'') \<and>
         world stub_blocked = world stub_blocked \<or>
       (\<exists>pcm. normalizeToPcm16 sample_8bit = Inr pcm \<and>
          (encodeToMp3 recorder pcm (Num 22050) = Inl (ExternalError ''EISDIR'') \<and>
             world stub_blocked = world stub_blocked \<or>
           (\<exists>mp3. encodeToMp3 recorder pcm (Num 22050) = Inr mp3 \<and>
              writeFileSync stub_sys (world stub_blocked)
                (path_join stub_sys ''out/My_Song'' (outputFileName 0 sample_8bit)) mp3 =
                (Some (ExternalError ''EISDIR''), world stub_blocked)))))"
    by blast
  from h3 h4 h5 h6 have p2:
    "statSync stub_sys (world stub_start) (path_join stub_sys ''music'' ''bad.xm'') =
       Inr \<lparr>isDirectory = False, isFile = True\<rparr> \<and>
     isFile \<lparr>isDirectory = False, isFile = True\<rparr> \<and>
     valid_extension (path_extname stub_sys ''bad.xm'') \<and>
     loadModuleData stub_sys (world stub_start) (path_join stub_sys ''music'' ''bad.xm'') =
       Inl (ExternalError ''not a module'')"
    by (intro conjI)
  from p1 have s1: "processSamples stub_sys recorder ''out/My_Song'' (Num 22050) 0
       (sample_wrong_type # [sample_8bit]) (0, stub_start) =
     processSamples stub_sys recorder ''out/My_Song'' (Num 22050) (0 + 1) [sample_8bit]
       (0, put (ErrSampleFailed 0 (sampleNameRaw 0 sample_wrong_type) UnknownFormat8)
             (stub_start\<lparr>world := world stub_start\<rparr>))"
    by (rule failure_does_not_abort [THEN conjunct1, rule_format])
  from p3 have s3: "processSamples stub_sys broken_encoder ''out/My_Song'' (Num 22050) 0
       (sample_8bit # [sample_unused]) (0, stub_start) =
     processSamples stub_sys broken_encoder ''out/My_Song'' (Num 22050) (0 + 1) [sample_unused]
       (0, put (ErrSampleFailed 0 (sampleNameRaw 0 sample_8bit) (ExternalError ''no encoder''))
             (stub_start\<lparr>world := world stub_start\<rparr>))"
    by (rule failure_does_not_abort [THEN conjunct1, rule_format])
  from p4 have s4: "processSamples stub_sys recorder ''out/My_Song'' (Num 22050) 0
       (sample_8bit # [sample_unused]) (0, stub_blocked) =
     processSamples stub_sys recorder ''out/My_Song'' (Num 22050) (0 + 1) [sample_unused]
       (0, put (ErrSampleFailed 0 (sampleNameRaw 0 sample_8bit) (ExternalError ''EISDIR''))
             (stub_blocked\<lparr>world := world stub_blocked\<rparr>))"
    by (rule failure_does_not_abort [THEN conjunct1, rule_format])
  from p2 have s2: "processDir stub_sys recorder ''music'' ''out'' (Num 22050)
        (''bad.xm'' # [''b.IT'']) stub_start =
      processDir stub_sys recorder ''music'' ''out'' (Num 22050) [''b.IT'']
        (put (ErrLoadFailed (path_join stub_sys ''music'' ''bad.xm'')
                (ExternalError ''not a module''))
           (put (LogProcessing (path_join stub_sys ''music'' ''bad.xm'')) stub_start))"
    by (rule failure_does_not_abort [THEN conjunct2, rule_format])
  from s1 v1 have r1: "processSamples stub_sys recorder ''out/My_Song'' (Num 22050) 0
       [sample_wrong_type, sample_8bit] (0, stub_start) =
     (1, \<lparr>world = stub_world\<lparr>stub_files := stub_files stub_world @
                  [(''out/My_Song/02_kick.mp3'', [255])]\<rparr>,
          console = [ErrSampleFailed 0 ''pad'' UnknownFormat8]\<rparr>)"
    by (rule trans)
  from s3 v3 have r3: "processSamples stub_sys broken_encoder ''out/My_Song'' (Num 22050) 0
       [sample_8bit, sample_unused] (0, stub_start) =
     (0, \<lparr>world = stub_world,
          console = [ErrSampleFailed 0 ''kick'' (ExternalError ''no encoder'')]\<rparr>)"
    by (rule trans)
  from s4 v4 have r4: "processSamples stub_sys recorder ''out/My_Song'' (Num 22050) 0
       [sample_8bit, sample_unused] (0, stub_blocked) =
     (0, \<lparr>world = world stub_blocked,
          console = [ErrSampleFailed 0 ''kick'' (ExternalError ''EISDIR'')]\<rparr>)"
    by (rule trans)
  from s2 v2 have r2: "processDir stub_sys recorder ''music'' ''out'' (Num 22050)
        [''bad.xm'', ''b.IT''] stub_start =
     (Returned,
      \<lparr>world = stub_world\<lparr>stub_dirs := [''music'', ''out/b'']\<rparr>,
       console = [LogProcessing ''music/bad.xm'',
                  ErrLoadFailed ''music/bad.xm'' (ExternalError ''not a module''),
                  LogProcessing ''music/b.IT'',
                  ErrSampleFailed 0 ''pad'' UnknownFormat8,
                  LogDone 0 1 ''out/b'']\<rparr>)"
    by (rule trans)
  from h1 h2 r1 k3 r3 k5 r4 h3 h4 h5 r2 show ?thesis
    by (intro conjI)
qed

text \<open>
  C8, as the claim states it, fails: \<^verbatim>\<open>b.IT\<close> decodes to one sample, whose normalization
  fails. No sample of the file has succeeded, and yet the file's output subdirectory
  \<^verbatim>\<open>out/b\<close> has been created.
\<close>

theorem failed_file_keeps_directory_counterexample:
  "loadModuleData stub_sys stub_world ''music/b.IT'' =
     Inr (Some \<lparr>mod_name = '' '', samples = Some [sample_wrong_type]\<rparr>) \<and>
   normalizeToPcm16 sample_wrong_type = Inl UnknownFormat8 \<and>
   processFile stub_sys recorder ''music/b.IT'' ''out'' (Num 22050) stub_start =
     (Returned,
      \<lparr>world = stub_world\<lparr>stub_dirs := [''music'', ''out/b'']\<rparr>,
       console = [LogProcessing ''music/b.IT'', ErrSampleFailed 0 ''pad'' UnknownFormat8,
                  LogDone 0 1 ''out/b'']\<rparr>)"
  by code_simp

text \<open>
  C8, amended. A sample whose normalization or encoding fails produces no output file:
  the loop body prints the error and leaves the counter and the filesystem as they were.
  A file whose loading or decoding fails, or which decodes to no samples, produces no
  output subdirectory: \<open>processFile\<close> returns with the filesystem as it was. A file that
  decodes to at least one sample has its output subdirectory created (\<^verbatim>\<open>mkdirSync\<close>)
  before any sample is processed, whether or not a sample succeeds afterwards.
\<close>

theorem failure_leaves_no_file:
  "(\<not> sample_is_empty s \<and>
      (normalizeToPcm16 s = Inl e \<or>
       (\<exists>pcm. normalizeToPcm16 s = Inr pcm \<and> encodeToMp3 enc pcm rate = Inl e)) \<longrightarrow>
    processSample sys enc dir rate i s (cnt, st) =
      (cnt, put (ErrSampleFailed i (sampleNameRaw i s) e) st) \<and>
    world (snd (processSample sys enc dir rate i s (cnt, st))) = world st) \<and>
   (loadModuleData sys (world st) filePath = Inl e \<longrightarrow>
    fst (processFile sys enc filePath outputDir rate st) = Returned \<and>
    world (snd (processFile sys enc filePath outputDir rate st)) = world st) \<and>
   (loadModuleData sys (world st) filePath = Inr m \<and>
      (m = None \<or> (\<exists>md. m = Some md \<and> (samples md = None \<or> samples md = Some []))) \<longrightarrow>
    fst (processFile sys enc filePath outputDir rate st) = Returned \<and>
    world (snd (processFile sys enc filePath outputDir rate st)) = world st) \<and>
   (loadModuleData sys (world st) filePath = Inr (Some md) \<and> samples md = Some ss \<and>
      ss \<noteq> [] \<longrightarrow>
    processFile sys enc filePath outputDir rate st =
      (case mkdirSync sys (world st) (moduleOutputDir_of sys filePath outputDir md) of
         (Some e, w1) \<Rightarrow> (Thrown e, put (LogProcessing filePath) st\<lparr>world := w1\<rparr>)
       | (None, w1) \<Rightarrow>
           (case processSamples sys enc (moduleOutputDir_of sys filePath outputDir md) rate 0 ss
                   (0, put (LogProcessing filePath) st\<lparr>world := w1\<rparr>) of
              (extractedCount, st2) \<Rightarrow>
                (Returned,
                 put (LogDone extractedCount (length ss)
                        (moduleOutputDir_of sys filePath outputDir md)) st2))))"
proof (intro conjI impI)
  assume a: "\<not> sample_is_empty s \<and>
      (normalizeToPcm16 s = Inl e \<or>
       (\<exists>pcm. normalizeToPcm16 s = Inr pcm \<and> encodeToMp3 enc pcm rate = Inl e))"
  then show eq: "processSample sys enc dir rate i s (cnt, st) =
      (cnt, put (ErrSampleFailed i (sampleNameRaw i s) e) st)"
    by (auto simp: processSample_normalize_fails processSample_encode_fails)
  then show "world (snd (processSample sys enc dir rate i s (cnt, st))) = world st"
    by (simp add: world_put)
next
  assume "loadModuleData sys (world st) filePath = Inl e"
  then have "processFile sys enc filePath outputDir rate st =
       (Returned, put (ErrLoadFailed filePath e) (put (LogProcessing filePath) st))"
    by (rule processFile_load_fails)
  then show "fst (processFile sys enc filePath outputDir rate st) = Returned"
    and "world (snd (processFile sys enc filePath outputDir rate st)) = world st"
    by (simp_all add: world_put)
next
  assume "loadModuleData sys (world st) filePath = Inr m \<and>
      (m = None \<or> (\<exists>md. m = Some md \<and> (samples md = None \<or> samples md = Some [])))"
  then have "processFile sys enc filePath outputDir rate st =
       (Returned, put (InfoNoSamples filePath) (put (LogProcessing filePath) st))"
    using processFile_no_samples by blast
  then show "fst (processFile sys enc filePath outputDir rate st) = Returned"
    and "world (snd (processFile sys enc filePath outputDir rate st)) = world st"
    by (simp_all add: world_put)
next
  assume "loadModuleData sys (world st) filePath = Inr (Some md) \<and> samples md = Some ss \<and>
      ss \<noteq> []"
  then show "processFile sys enc filePath outputDir rate st =
      (case mkdirSync sys (world st) (moduleOutputDir_of sys filePath outputDir md) of
         (Some e, w1) \<Rightarrow> (Thrown e, put (LogProcessing filePath) st\<lparr>world := w1\<rparr>)
       | (None, w1) \<Rightarrow>
           (case processSamples sys enc (moduleOutputDir_of sys filePath outputDir md) rate 0 ss
                   (0, put (LogProcessing filePath) st\<lparr>world := w1\<rparr>) of
              (extractedCount, st2) \<Rightarrow>
                (Returned,
                 put (LogDone extractedCount (length ss)
                        (moduleOutputDir_of sys filePath outputDir md)) st2)))"
    using processFile_samples by blast
qed

theorem failure_leaves_no_file_witness:
  "\<not> sample_is_empty sample_wrong_type \<and>
   normalizeToPcm16 sample_wrong_type = Inl UnknownFormat8 \<and>
   world (snd (processSample stub_sys recorder ''out/My_Song'' (Num 22050) 2 sample_wrong_type
                 (1, stub_start))) = world stub_start \<and>
   loadModuleData stub_sys (world stub_start) ''music/bad.xm'' =
     Inl (ExternalError ''not a module'') \<and>
   world (snd (processFile stub_sys recorder ''music/bad.xm'' ''out'' (Num 22050) stub_start)) =
     world stub_start \<and>
   loadModuleData stub_sys (world stub_start) ''music/c.s3m'' =
     Inr (Some \<lparr>mod_name = ''silence'', samples = Some []\<rparr>) \<and>
   world (snd (processFile stub_sys recorder ''music/c.s3m'' ''out'' (Num 22050) stub_start)) =
     world stub_start \<and>
   loadModuleData stub_sys (world stub_start) ''music/b.IT'' =
     Inr (Some \<lparr>mod_name = '' '', samples = Some [sample_wrong_type]\<rparr>) \<and>
   mkdirSync stub_sys (world stub_start)
       (moduleOutputDir_of stub_sys ''music/b.IT'' ''out''
          \<lparr>mod_name = '' '', samples = Some [sample_wrong_type]\<rparr>) =
     (None, stub_world\<lparr>stub_dirs := [''music'', ''out/b'']\<rparr>) \<and>
   processFile stub_sys recorder ''music/b.IT'' ''out'' (Num 22050) stub_start =
     (Returned,
      \<lparr>world = stub_world\<lparr>stub_dirs := [''music'', ''out/b'']\<rparr>,
       console = [LogProcessing ''music/b.IT'', ErrSampleFailed 0 ''pad'' UnknownFormat8,
                  LogDone 0 1 ''out/b'']\<rparr>)"
proof -
  have h1: "\<not> sample_is_empty sample_wrong_type"
    by code_simp
  have h2: "normalizeToPcm16 sample_wrong_type = Inl UnknownFormat8"
    by code_simp
  have h3: "loadModuleData stub_sys (world stub_start) ''music/bad.xm'' =
     Inl (ExternalError ''not a module'')"
    by code_simp
  have h4: "loadModuleData stub_sys (world stub_start) ''music/c.s3m'' =
     Inr (Some \<lparr>mod_name = ''silence'', samples = Some []\<rparr>)"
    by code_simp
  have h5: "loadModuleData stub_sys (world stub_start) ''music/b.IT'' =
     Inr (Some \<lparr>mod_name = '' '', samples = Some [sample_wrong_type]\<rparr>)"
    by code_simp
  have h6: "mkdirSync stub_sys (world stub_start)
       (moduleOutputDir_of stub_sys ''music/b.IT'' ''out''
          \<lparr>mod_name = '' '', samples = Some [sample_wrong_type]\<rparr>) =
     (None, stub_world\<lparr>stub_dirs := [''music'', ''out/b'']\<rparr>)"
    by code_simp
  have v: "(case mkdirSync stub_sys (world stub_start)
              (moduleOutputDir_of stub_sys ''music/b.IT'' ''out''
                 \<lparr>mod_name = '' '', samples = Some [sample_wrong_type]\<rparr>) of
         (Some e, w1) \<Rightarrow> (Thrown e, put (LogProcessing ''music/b.IT'') stub_start\<lparr>world := w1\<rparr>)
       | (None, w1) \<Rightarrow>
           (case processSamples stub_sys recorder
                   (moduleOutputDir_of stub_sys ''music/b.IT'' ''out''
                      \<lparr>mod_name = '' '', samples = Some [sample_wrong_type]\<rparr>)
                   (Num 22050) 0 [sample_wrong_type]
                   (0, put (LogProcessing ''music/b.IT'') stub_start\<lparr>world := w1\<rparr>) of
              (extractedCount, st2) \<Rightarrow>
                (Returned,
                 put (LogDone extractedCount (length [sample_wrong_type])
                        (moduleOutputDir_of stub_sys ''music/b.IT'' ''out''
                           \<lparr>mod_name = '' '', samples = Some [sample_wrong_type]\<rparr>)) st2))) =
     (Returned,
      \<lparr>world = stub_world\<lparr>stub_dirs := [''music'', ''out/b'']\<rparr>,
       console = [LogProcessing ''music/b.IT'', ErrSampleFailed 0 ''pad'' UnknownFormat8,
                  LogDone 0 1 ''out/b'']\<rparr>)"
    by code_simp
  from h1 h2 have p1: "\<not> sample_is_empty sample_wrong_type \<and>
      (normalizeToPcm16 sample_wrong_type = Inl UnknownFormat8 \<or>
       (\<exists>pcm. normalizeToPcm16 sample_wrong_type = Inr pcm \<and>
          encodeToMp3 recorder pcm (Num 22050) = Inl UnknownFormat8))"
    by blast
  from h4 have p3: "loadModuleData stub_sys (world stub_start) ''music/c.s3m'' =
       Inr (Some \<lparr>mod_name = ''silence'', samples = Some []\<rparr>) \<and>
     (Some \<lparr>mod_name = ''silence'', samples = Some []\<rparr> = None \<or>
      (\<exists>md. Some \<lparr>mod_name = ''silence'', samples = Some []\<rparr> = Some md \<and>
         (samples md = None \<or> samples md = Some [])))"
    by simp
  from h5 have p4: "loadModuleData stub_sys (world stub_start) ''music/b.IT'' =
       Inr (Some \<lparr>mod_name = '' '', samples = Some [sample_wrong_type]\<rparr>) \<and>
     samples \<lparr>mod_name = '' '', samples = Some [sample_wrong_type]\<rparr> = Some [sample_wrong_type] \<and>
     [sample_wrong_type] \<noteq> []"
    by simp
  from p1 have r1: "world (snd (processSample stub_sys recorder ''out/My_Song'' (Num 22050) 2
      sample_wrong_type (1, stub_start))) = world stub_start"
    by (rule failure_leaves_no_file [THEN conjunct1, rule_format, THEN conjunct2])
  from h3 have r2: "world (snd (processFile stub_sys recorder ''music/bad.xm'' ''out''
      (Num 22050) stub_start)) = world stub_start"
    by (rule failure_leaves_no_file
        [THEN conjunct2, THEN conjunct1, rule_format, THEN conjunct2])
  from p3 have r3: "world (snd (processFile stub_sys recorder ''music/c.s3m'' ''out''
      (Num 22050) stub_start)) = world stub_start"
    by (rule failure_leaves_no_file
        [THEN conjunct2, THEN conjunct2, THEN conjunct1, rule_format, THEN conjunct2])
  from p4 have "processFile stub_sys recorder ''music/b.IT'' ''out'' (Num 22050) stub_start =
      (case mkdirSync stub_sys (world stub_start)
              (moduleOutputDir_of stub_sys ''music/b.IT'' ''out''
                 \<lparr>mod_name = '' '', samples = Some [sample_wrong_type]\<rparr>) of
         (Some e, w1) \<Rightarrow> (Thrown e, put (LogProcessing ''music/b.IT'') stub_start\<lparr>world := w1\<rparr>)
       | (None, w1) \<Rightarrow>
           (case processSamples stub_sys recorder
                   (moduleOutputDir_of stub_sys ''music/b.IT'' ''out''
                      \<lparr>mod_name = '' '', samples = Some [sample_wrong_type]\<rparr>)
                   (Num 22050) 0 [sample_wrong_type]
                   (0, put (LogProcessing ''music/b.IT'') stub_start\<lparr>world := w1\<rparr>) of
              (extractedCount, st2) \<Rightarrow>
                (Returned,
                 put (LogDone extractedCount (length [sample_wrong_type])
                        (moduleOutputDir_of stub_sys ''music/b.IT'' ''out''
                           \<lparr>mod_name = '' '', samples = Some [sample_wrong_type]\<rparr>)) st2)))"
    by (rule failure_leaves_no_file
        [THEN conjunct2, THEN conjunct2, THEN conjunct2, rule_format])
  from this v have r4: "processFile stub_sys recorder ''music/b.IT'' ''out'' (Num 22050)
      stub_start =
     (Returned,
      \<lparr>world = stub_world\<lparr>stub_dirs := [''music'', ''out/b'']\<rparr>,
       console = [LogProcessing ''music/b.IT'', ErrSampleFailed 0 ''pad'' UnknownFormat8,
                  LogDone 0 1 ''out/b'']\<rparr>)"
    by (rule trans)
  from h1 h2 r1 h3 r2 h4 r3 h5 h6 r4 show ?thesis
    by (intro conjI)
qed

text \<open>
  C9. A non-existent input path ends the run with exit status 1
  (\<open>run_input_not_found\<close>). A sole input file whose extension is not a tracker
  extension does not (\<open>run_invalid_input_returns\<close>): \<open>main\<close> prints the error line and
  the closing line and returns, and the process ends with exit status 0. Both runs, on
  the stub world:
\<close>

theorem main_invalid_sole_input_exit_status:
  "main stub_sys recorder [''node'', ''extract.js'', ''nothing'', ''out''] stub_start =
     (Exited 1, \<lparr>world = stub_world, console = [ErrInputNotFound ''nothing'']\<rparr>) \<and>
   existsSync stub_sys stub_world ''song.txt'' \<and>
   statSync stub_sys stub_world ''song.txt'' = Inr \<lparr>isDirectory = False, isFile = True\<rparr> \<and>
   valid_extension (path_extname stub_sys ''song.txt'') = False \<and>
   main stub_sys recorder [''node'', ''extract.js'', ''song.txt'', ''out''] stub_start =
     (Returned,
      \<lparr>world = stub_world\<lparr>stub_dirs := [''music'', ''out'']\<rparr>,
       console = [LogStart, LogInput ''/work/song.txt'', LogOutput ''/work/out'',
                  LogRate (Num 22050), LogSeparator, ErrInvalidInput ''song.txt'',
                  LogFinished]\<rparr>) \<and>
   exit_status (fst (main stub_sys recorder [''node'', ''extract.js'', ''song.txt'', ''out'']
      stub_start)) = 0"
  by code_simp

end
